theory Spec2Isabelle
  imports Main "HOL-Library.Sublist" "HOL-Library.Monad_Syntax"
begin

section \<open>Events: filtering, counting and ranking (app/events\_processor.py)\<close>

text \<open>
  An amoCRM event is a dictionary. The processor reads two of its keys: \<open>created_by\<close>
  through \<open>event.get("created_by")\<close>, where an absent key and a null value both give
  \<open>None\<close>, and \<open>type\<close> through \<open>event.get("type", "unknown")\<close>. The annotations
  \<open>user_ids: list[int]\<close> and \<open>-> dict[str, int]\<close> fix the value types: a user id is
  an integer and a type tag is a string. Every other key is carried along unread.
\<close>

record event =
  created_by :: "int option"
  etype :: "string option"
  other_fields :: "(string \<times> string) list"

subsection \<open>filter\_automated\_events\<close>

text \<open>
  The \<open>for\<close> loop over \<open>events\<close>, with the list \<open>automated_events\<close> it appends to
  as the accumulator.
\<close>

fun filter_automated_loop :: "event list \<Rightarrow> int list \<Rightarrow> event list \<Rightarrow> event list" where
  "filter_automated_loop [] user_ids automated_events = automated_events"
| "filter_automated_loop (event # events) user_ids automated_events =
     (if (case created_by event of None \<Rightarrow> True | Some u \<Rightarrow> u \<notin> set user_ids)
      then filter_automated_loop events user_ids (automated_events @ [event])
      else filter_automated_loop events user_ids automated_events)"

definition filter_automated_events :: "event list \<Rightarrow> int list \<Rightarrow> event list" where
  "filter_automated_events events user_ids = filter_automated_loop events user_ids []"

subsection \<open>count\_event\_types\<close>

text \<open>
  \<open>Counter(xs)\<close> walks \<open>xs\<close> and adds one to the entry of each element; a dictionary
  keeps its keys in the order of their first insertion, so the result is an association
  list in first-seen order with every key once.
\<close>

fun counter_add :: "string \<Rightarrow> (string \<times> int) list \<Rightarrow> (string \<times> int) list" where
  "counter_add k [] = [(k, 1)]"
| "counter_add k ((k', n) # rest) =
     (if k = k' then (k', n + 1) # rest else (k', n) # counter_add k rest)"

definition Counter :: "string list \<Rightarrow> (string \<times> int) list" where
  "Counter xs = fold counter_add xs []"

definition count_event_types :: "event list \<Rightarrow> (string \<times> int) list" where
  "count_event_types events =
     (let event_types =
            map (\<lambda>event. case etype event of None \<Rightarrow> ''unknown'' | Some t \<Rightarrow> t) events;
          type_counts = Counter event_types
      in type_counts)"

subsection \<open>get\_top\_events\<close>

text \<open>
  \<open>a or b\<close> on an optional integer: \<open>None\<close> and \<open>0\<close> are both falsy, so both give
  \<open>b\<close>.
\<close>

definition int_or :: "int option \<Rightarrow> int \<Rightarrow> int" where
  "int_or a b = (case a of None \<Rightarrow> b | Some k \<Rightarrow> if k = 0 then b else k)"

text \<open>
  \<open>sorted(xs, key=f, reverse=True)\<close>: the list is reversed, sorted stably in ascending
  order of the key, and reversed again, so equal keys keep their input order.
\<close>

definition sorted_reverse :: "('a \<Rightarrow> int) \<Rightarrow> 'a list \<Rightarrow> 'a list" where
  "sorted_reverse f xs = rev (sort_key f (rev xs))"

text \<open>The slice \<open>xs[:n]\<close>; a negative \<open>n\<close> counts from the end.\<close>

definition slice_to :: "'a list \<Rightarrow> int \<Rightarrow> 'a list" where
  "slice_to xs n =
     (if 0 \<le> n then take (nat n) xs else take (length xs - nat (- n)) xs)"

text \<open>
  The constructor stores \<open>top_limit or settings.TOP_EVENTS_LIMIT\<close>; the setting's
  default is 5.
\<close>

definition TOP_EVENTS_LIMIT_default :: int where
  "TOP_EVENTS_LIMIT_default = 5"

definition EventsProcessor_init :: "int option \<Rightarrow> int \<Rightarrow> int" where
  "EventsProcessor_init top_limit settings_TOP_EVENTS_LIMIT =
     int_or top_limit settings_TOP_EVENTS_LIMIT"

definition get_top_events ::
  "int \<Rightarrow> (string \<times> int) list \<Rightarrow> int option \<Rightarrow> (string \<times> int) list" where
  "get_top_events self_top_limit type_counts limit =
     (let limit' = int_or limit self_top_limit;
          top_events = slice_to (sorted_reverse snd type_counts) limit'
      in top_events)"

definition process_events :: "int \<Rightarrow> event list \<Rightarrow> int list \<Rightarrow> (string \<times> int) list" where
  "process_events self_top_limit events user_ids =
     (let automated_events = filter_automated_events events user_ids
      in if automated_events = [] then []
         else let type_counts = count_event_types automated_events
              in if type_counts = [] then []
                 else get_top_events self_top_limit type_counts None)"

section \<open>The HTTP client with retry (app/http\_client.py)\<close>

text \<open>
  Every exception the code can raise is a value. \<open>HTTPStatusError\<close> carries the
  status code of the response it was raised for, \<open>RequestError\<close> the transport's
  message.
\<close>

datatype error =
    RuntimeError string
  | HTTPStatusError nat
  | RequestError string
  | JSONDecodeError
  | ValueError
  | OverflowError
  | AttributeError
  | TypeError

record request =
  req_url :: string
  req_headers :: "(string \<times> string) list"
  req_params :: "(string \<times> int) list option"

record 'b response =
  status_code :: nat
  json_body :: "'b option"

text \<open>
  One call of \<open>self._client.get(url, headers=..., params=...)\<close> either returns a
  response or raises an \<open>httpx.RequestError\<close> (a network-level failure). The
  remote side may answer differently each time, so the transport threads a state of
  its own.
\<close>

datatype 'b outcome = Responded "'b response" | NetworkFailure string

type_synonym ('s, 'b) transport = "request \<Rightarrow> 's \<Rightarrow> 'b outcome \<times> 's"

text \<open>
  The client object with the settings and the token manager it reads. \<open>client_open\<close>
  is \<open>self._client\<close> being set; \<open>requests_sent\<close> counts the calls of the
  transport and \<open>sleeps\<close> lists the waits between attempts, oldest first.
\<close>

record 's http_client =
  base_url :: string
  client_open :: bool
  AMO_LONG_LIVE_TOKEN :: "string option"
  token_manager :: "error + string option"
  net :: 's
  requests_sent :: nat
  sleeps :: "nat list"

definition rstrip :: "char \<Rightarrow> string \<Rightarrow> string" where
  "rstrip ch s = rev (dropWhile (\<lambda>c. c = ch) (rev s))"

definition AmoCRMHTTPClient_init :: "string \<Rightarrow> string option \<Rightarrow> error + string option \<Rightarrow> 's \<Rightarrow> 's http_client" where
  "AmoCRMHTTPClient_init settings_AMO_BASE_URL long_live_token manager s0 =
     \<lparr>base_url = rstrip (CHR ''/'') settings_AMO_BASE_URL, client_open = False,
      AMO_LONG_LIVE_TOKEN = long_live_token, token_manager = manager, net = s0,
      requests_sent = 0, sleeps = []\<rparr>"

definition aenter :: "'s http_client \<Rightarrow> 's http_client" where
  "aenter c = c\<lparr>client_open := True\<rparr>"

text \<open>
  \<open>__aexit__\<close> closes the httpx client and leaves \<open>self._client\<close> set.
\<close>

definition aexit :: "'s http_client \<Rightarrow> 's http_client" where
  "aexit c = c"

text \<open>
  The messages of the two \<open>RuntimeError\<close>s are Russian text: "HTTP client is not
  initialised, use async with" and "access token unavailable".
\<close>

definition client_not_initialised :: string where
  "client_not_initialised =
     ''HTTP-'' @ [CHR 0xD0, CHR 0xBA, CHR 0xD0, CHR 0xBB, CHR 0xD0, CHR 0xB8, CHR 0xD0,
       CHR 0xB5, CHR 0xD0, CHR 0xBD, CHR 0xD1, CHR 0x82] @ '' '' @ [CHR 0xD0, CHR 0xBD,
       CHR 0xD0, CHR 0xB5] @ '' '' @ [CHR 0xD0, CHR 0xB8, CHR 0xD0, CHR 0xBD, CHR 0xD0,
       CHR 0xB8, CHR 0xD1, CHR 0x86, CHR 0xD0, CHR 0xB8, CHR 0xD0, CHR 0xB0, CHR 0xD0,
       CHR 0xBB, CHR 0xD0, CHR 0xB8, CHR 0xD0, CHR 0xB7, CHR 0xD0, CHR 0xB8, CHR 0xD1,
       CHR 0x80, CHR 0xD0, CHR 0xBE, CHR 0xD0, CHR 0xB2, CHR 0xD0, CHR 0xB0, CHR 0xD0,
       CHR 0xBD] @ ''. '' @ [CHR 0xD0, CHR 0x98, CHR 0xD1, CHR 0x81, CHR 0xD0, CHR 0xBF,
       CHR 0xD0, CHR 0xBE, CHR 0xD0, CHR 0xBB, CHR 0xD1, CHR 0x8C, CHR 0xD0, CHR 0xB7,
       CHR 0xD1, CHR 0x83, CHR 0xD0, CHR 0xB9, CHR 0xD1, CHR 0x82, CHR 0xD0,
       CHR 0xB5] @ '' async with.''"

definition access_token_unavailable :: string where
  "access_token_unavailable =
     ''Access token '' @ [CHR 0xD0, CHR 0xBD, CHR 0xD0, CHR 0xB5, CHR 0xD0, CHR 0xB4, CHR 0xD0,
       CHR 0xBE, CHR 0xD1, CHR 0x81, CHR 0xD1, CHR 0x82, CHR 0xD1, CHR 0x83, CHR 0xD0,
       CHR 0xBF, CHR 0xD0, CHR 0xB5, CHR 0xD0, CHR 0xBD]"

definition get_access_token :: "'s http_client \<Rightarrow> error + string" where
  "get_access_token c =
     (case token_manager c of
        Inl e \<Rightarrow> Inl e
      | Inr None \<Rightarrow> Inl (RuntimeError access_token_unavailable)
      | Inr (Some token) \<Rightarrow>
          if token = [] then Inl (RuntimeError access_token_unavailable) else Inr token)"

definition get_headers :: "'s http_client \<Rightarrow> error + (string \<times> string) list" where
  "get_headers c =
     (case AMO_LONG_LIVE_TOKEN c of
        Some t \<Rightarrow>
          if t \<noteq> []
          then Inr [(''Authorization'', ''Bearer '' @ t), (''Content-Type'', ''application/json'')]
          else (case get_access_token c of
                  Inl e \<Rightarrow> Inl e
                | Inr access_token \<Rightarrow>
                    Inr [(''Authorization'', ''Bearer '' @ access_token),
                         (''Content-Type'', ''application/json'')])
      | None \<Rightarrow>
          (case get_access_token c of
             Inl e \<Rightarrow> Inl e
           | Inr access_token \<Rightarrow>
               Inr [(''Authorization'', ''Bearer '' @ access_token),
                    (''Content-Type'', ''application/json'')]))"

text \<open>
  \<open>response.raise_for_status()\<close> of httpx raises \<open>HTTPStatusError\<close> unless the
  status is a success (2xx).
\<close>

definition raise_for_status :: "'b response \<Rightarrow> error + unit" where
  "raise_for_status r =
     (if 200 \<le> status_code r \<and> status_code r \<le> 299 then Inr ()
      else Inl (HTTPStatusError (status_code r)))"

text \<open>
  Before it returns the decoded body \<open>data\<close>, \<open>get\<close> evaluates
  \<open>len(data.get("_embedded", {}))\<close> for its debug log line (the argument is computed
  whether or not the line is printed). A body that is no JSON object has no \<open>get\<close>
  (\<open>AttributeError\<close>), and an \<open>_embedded\<close> value that is a number, a boolean or null
  has no length (\<open>TypeError\<close>). The type of the decoded body is left open here, so what
  the expression gives for a body is the argument \<open>embedded_len\<close>.
\<close>

datatype len_result = Len nat | NoGet | NoLen

text \<open>
  The body of \<open>get\<close>, one attempt. Both \<open>except\<close> clauses log and re-raise, so the
  error leaves unchanged; an error of the log line's argument is caught by neither. The
  check of the five statuses only logs a warning before the same \<open>raise_for_status\<close>
  that follows it.
\<close>

definition get_attempt ::
  "('s, 'b) transport \<Rightarrow> ('b \<Rightarrow> len_result) \<Rightarrow> string \<Rightarrow> (string \<times> int) list option
     \<Rightarrow> 's http_client \<Rightarrow> (error + 'b) \<times> 's http_client" where
  "get_attempt transport embedded_len endpoint params c =
     (if \<not> client_open c then (Inl (RuntimeError client_not_initialised), c)
      else
        let url = base_url c @ endpoint in
        case get_headers c of
          Inl e \<Rightarrow> (Inl e, c)
        | Inr headers \<Rightarrow>
            (case transport \<lparr>req_url = url, req_headers = headers, req_params = params\<rparr> (net c) of
               (NetworkFailure msg, s') \<Rightarrow>
                 (Inl (RequestError msg), c\<lparr>net := s', requests_sent := requests_sent c + 1\<rparr>)
             | (Responded response, s') \<Rightarrow>
                 let c' = c\<lparr>net := s', requests_sent := requests_sent c + 1\<rparr>;
                     decode_and_log =
                       (case json_body response of
                          None \<Rightarrow> (Inl JSONDecodeError, c')
                        | Some data \<Rightarrow>
                            (case embedded_len data of
                               NoGet \<Rightarrow> (Inl AttributeError, c')
                             | NoLen \<Rightarrow> (Inl TypeError, c')
                             | Len n \<Rightarrow> (Inr data, c')))
                 in
                 if status_code response \<in> {429, 500, 502, 503, 504}
                 then (case raise_for_status response of
                         Inl e \<Rightarrow> (Inl e, c')
                       | Inr _ \<Rightarrow>
                           (case raise_for_status response of
                              Inl e \<Rightarrow> (Inl e, c')
                            | Inr _ \<Rightarrow> decode_and_log))
                 else (case raise_for_status response of
                         Inl e \<Rightarrow> (Inl e, c')
                       | Inr _ \<Rightarrow> decode_and_log)))"

subsection \<open>The retry decorator\<close>

text \<open>
  The decorator's four arguments. \<open>retry_if_exception_type\<close> asks for another attempt
  when the error is an \<open>httpx.HTTPStatusError\<close> or an \<open>httpx.RequestError\<close>;
  \<open>stop_after_attempt(3)\<close> stops once the attempt number has reached 3;
  \<open>wait_exponential(multiplier=1, min=2, max=10)\<close> waits
  \<open>max(2, min(2 ** (attempt - 1), 10))\<close>; with \<open>reraise=True\<close> the error of the last
  attempt is raised as it is when the attempts are used up.
\<close>

definition retry_if_exception_type :: "error \<Rightarrow> bool" where
  "retry_if_exception_type e =
     (case e of HTTPStatusError _ \<Rightarrow> True | RequestError _ \<Rightarrow> True | _ \<Rightarrow> False)"

definition stop_after_attempt :: "nat \<Rightarrow> bool" where
  "stop_after_attempt attempt_number \<longleftrightarrow> attempt_number \<ge> 3"

definition wait_exponential :: "nat \<Rightarrow> nat" where
  "wait_exponential attempt_number = max 2 (min (1 * 2 ^ (attempt_number - 1)) 10)"

text \<open>
  The retrying call, from attempt number \<open>attempt_number\<close> on. It returns the result,
  the client afterwards and the number of the last attempt made.
\<close>

function get_retrying ::
  "('s, 'b) transport \<Rightarrow> ('b \<Rightarrow> len_result) \<Rightarrow> string \<Rightarrow> (string \<times> int) list option \<Rightarrow> nat
     \<Rightarrow> 's http_client \<Rightarrow> (error + 'b) \<times> 's http_client \<times> nat" where
  "get_retrying transport embedded_len endpoint params attempt_number c =
     (case get_attempt transport embedded_len endpoint params c of
        (Inr data, c') \<Rightarrow> (Inr data, c', attempt_number)
      | (Inl e, c') \<Rightarrow>
          if \<not> retry_if_exception_type e then (Inl e, c', attempt_number)
          else if stop_after_attempt attempt_number then (Inl e, c', attempt_number)
          else get_retrying transport embedded_len endpoint params (attempt_number + 1)
                 (c'\<lparr>sleeps := sleeps c' @ [wait_exponential attempt_number]\<rparr>))"
  by pat_completeness auto
termination
  by (relation "measure (\<lambda>(transport, embedded_len, endpoint, params, attempt_number, c).
                           3 - attempt_number)")
     (auto simp: stop_after_attempt_def)

declare get_retrying.simps [simp del]

definition get ::
  "('s, 'b) transport \<Rightarrow> ('b \<Rightarrow> len_result) \<Rightarrow> string \<Rightarrow> (string \<times> int) list option
     \<Rightarrow> 's http_client \<Rightarrow> (error + 'b) \<times> 's http_client \<times> nat" where
  "get transport embedded_len endpoint params c =
     get_retrying transport embedded_len endpoint params 1 c"

section \<open>The amoCRM client (app/amocrm\_client.py)\<close>

text \<open>
  The JSON bodies the client reads: \<open>_embedded\<close> with its \<open>users\<close> or \<open>events\<close>
  list, and \<open>_links\<close>, of which only the key names matter. An absent key is
  \<open>None\<close>; \<open>.get(key, default)\<close> supplies the default for it.
\<close>

record user =
  user_id :: "int option"

record embedded =
  emb_users :: "user list option"
  emb_events :: "event list option"

record api_body =
  body_embedded :: "embedded option"
  body_links :: "string list option"

text \<open>
  A body of this type is a JSON object, and its \<open>_embedded\<close>, when present, is an
  object too: \<open>len(data.get("_embedded", {}))\<close> is the number of its keys, 0 when it is
  absent.
\<close>

definition api_embedded_len :: "api_body \<Rightarrow> len_result" where
  "api_embedded_len data =
     (case body_embedded data of
        None \<Rightarrow> Len 0
      | Some emb \<Rightarrow>
          Len ((case emb_users emb of None \<Rightarrow> 0 | Some _ \<Rightarrow> 1) +
               (case emb_events emb of None \<Rightarrow> 0 | Some _ \<Rightarrow> 1)))"


definition response_users :: "api_body \<Rightarrow> user list" where
  \<comment> \<open>\<open>response.get("_embedded", {}).get("users", [])\<close>\<close>
  "response_users response =
     (case body_embedded response of
        None \<Rightarrow> []
      | Some emb \<Rightarrow> (case emb_users emb of None \<Rightarrow> [] | Some users \<Rightarrow> users))"


definition get_users ::
  "('s, api_body) transport \<Rightarrow> 's http_client \<Rightarrow> (error + int list) \<times> 's http_client" where
  "get_users transport c =
     (case get transport api_embedded_len ''/api/v4/users'' None (aenter c) of
        (Inl e, c', _) \<Rightarrow> (Inl e, aexit c')
      | (Inr response, c', _) \<Rightarrow>
          (Inr (List.map_filter user_id (response_users response)), aexit c'))"




definition get_account_info ::
  "('s, api_body) transport \<Rightarrow> 's http_client \<Rightarrow> (error + api_body) \<times> 's http_client" where
  "get_account_info transport c =
     (case get transport api_embedded_len ''/api/v4/account'' None (aenter c) of
        (Inl e, c', _) \<Rightarrow> (Inl e, aexit c')
      | (Inr response, c', _) \<Rightarrow> (Inr response, aexit c'))"

section \<open>Timestamps\<close>

text \<open>
  The fields of a \<open>datetime\<close> that the formats print. A \<open>datetime\<close> object
  always satisfies \<open>valid_datetime\<close>: its constructor refuses anything else. The
  time zone is no field: the formats used here print a literal \<open>Z\<close> and no offset.
\<close>

record datetime =
  year :: nat
  month :: nat
  day :: nat
  hour :: nat
  minute :: nat
  second :: nat

definition is_leap :: "nat \<Rightarrow> bool" where
  "is_leap y \<longleftrightarrow> y mod 4 = 0 \<and> (y mod 100 \<noteq> 0 \<or> y mod 400 = 0)"

definition days_in_month :: "nat \<Rightarrow> nat \<Rightarrow> nat" where
  "days_in_month y m =
     (if m = 2 then (if is_leap y then 29 else 28)
      else if m = 4 \<or> m = 6 \<or> m = 9 \<or> m = 11 then 30 else 31)"

definition valid_datetime :: "datetime \<Rightarrow> bool" where
  "valid_datetime dt \<longleftrightarrow>
     1 \<le> year dt \<and> year dt \<le> 9999 \<and> 1 \<le> month dt \<and> month dt \<le> 12 \<and>
     1 \<le> day dt \<and> day dt \<le> days_in_month (year dt) (month dt) \<and>
     hour dt \<le> 23 \<and> minute dt \<le> 59 \<and> second dt \<le> 59"

definition digit_char :: "nat \<Rightarrow> char" where
  "digit_char d = char_of (48 + d)"

definition is_digit :: "char \<Rightarrow> bool" where
  "is_digit c \<longleftrightarrow> 48 \<le> (of_char c :: nat) \<and> (of_char c :: nat) \<le> 57"

definition digit_val :: "char \<Rightarrow> nat" where
  "digit_val c = of_char c - 48"

text \<open>
  Zero-padded decimal fields of width 2 (\<open>%m\<close>, \<open>%d\<close>, \<open>%H\<close>, \<open>%M\<close>,
  \<open>%S\<close>) and of width 4.
\<close>

definition pad2 :: "nat \<Rightarrow> string" where
  "pad2 n = [digit_char (n div 10 mod 10), digit_char (n mod 10)]"

definition pad4 :: "nat \<Rightarrow> string" where
  "pad4 n = [digit_char (n div 1000 mod 10), digit_char (n div 100 mod 10),
             digit_char (n div 10 mod 10), digit_char (n mod 10)]"

text \<open>
  The canonical text \<open>YYYY-MM-DDTHH:MM:SSZ\<close> of a date and time, every field
  zero-padded, and its date part \<open>YYYY-MM-DD\<close>. This is the form the docstrings name,
  the form \<open>strptime\<close> reads back, and the form in which SQLite prints a date.
\<close>

definition iso_timestamp :: "datetime \<Rightarrow> string" where
  "iso_timestamp dt =
     pad4 (year dt) @ ''-'' @ pad2 (month dt) @ ''-'' @ pad2 (day dt) @ ''T'' @
     pad2 (hour dt) @ '':'' @ pad2 (minute dt) @ '':'' @ pad2 (second dt) @ ''Z''"

definition iso_date :: "datetime \<Rightarrow> string" where
  "iso_date dt = pad4 (year dt) @ ''-'' @ pad2 (month dt) @ ''-'' @ pad2 (day dt)"

text \<open>
  What \<open>strftime\<close> prints. The program runs on Linux (under systemd timers) and
  needs CPython 3.11 for \<open>datetime.UTC\<close>; there \<open>strftime\<close> hands \<open>%Y\<close> to the C
  library, and glibc prints the year as a plain decimal number: four digits from the year
  1000 on, fewer and without padding before (\<open>999\<close>, not \<open>0999\<close>). The other
  fields are zero-padded to two digits.
\<close>

fun decimal :: "nat \<Rightarrow> string" where
  "decimal n = (if n < 10 then [digit_char n] else decimal (n div 10) @ [digit_char (n mod 10)])"

declare decimal.simps [simp del]

definition strftime_iso :: "datetime \<Rightarrow> string" where
  \<comment> \<open>\<open>strftime("%Y-%m-%dT%H:%M:%SZ")\<close>\<close>
  "strftime_iso dt =
     decimal (year dt) @ ''-'' @ pad2 (month dt) @ ''-'' @ pad2 (day dt) @ ''T'' @
     pad2 (hour dt) @ '':'' @ pad2 (minute dt) @ '':'' @ pad2 (second dt) @ ''Z''"

definition strftime_date :: "datetime \<Rightarrow> string" where
  \<comment> \<open>\<open>strftime("%Y-%m-%d")\<close>, the date string the daily report queries the store with\<close>
  "strftime_date dt = decimal (year dt) @ ''-'' @ pad2 (month dt) @ ''-'' @ pad2 (day dt)"

section \<open>The latency store (app/latency\_checker.py)\<close>

text \<open>
  The table \<open>latency(timestamp TEXT, latency_ms INTEGER)\<close> is the list of its rows in
  insertion order. Each operation opens the database, runs one statement and commits.
\<close>

type_synonym latency_db = "(string \<times> int) list"

text \<open>Reading a fixed number of decimal digits, and one expected character.\<close>

fun take_digits :: "nat \<Rightarrow> string \<Rightarrow> (nat \<times> string) option" where
  "take_digits 0 s = Some (0, s)"
| "take_digits (Suc n) [] = None"
| "take_digits (Suc n) (c # s) =
     (if is_digit c
      then (case take_digits n s of
              None \<Rightarrow> None
            | Some (v, rest) \<Rightarrow> Some (digit_val c * 10 ^ n + v, rest))
      else None)"

definition expect_char :: "char \<Rightarrow> string \<Rightarrow> string option" where
  "expect_char ch s = (case s of [] \<Rightarrow> None | c # rest \<Rightarrow> if c = ch then Some rest else None)"

text \<open>
  SQLite's \<open>date(timestamp)\<close> on the strings that \<open>save_latency\<close> writes: the
  calendar date, printed as \<open>YYYY-MM-DD\<close>, of a string of the canonical form
  \<open>YYYY-MM-DDTHH:MM:SSZ\<close>, and NULL (\<open>None\<close>) for any other string, among them the
  timestamps of the years before 1000, whose year has fewer than four digits. The other
  forms of time value that SQLite reads are not modelled; no row has them.
\<close>

definition sqlite_parse :: "string \<Rightarrow> datetime option" where
  "sqlite_parse s = do {
     (Y, s1) \<leftarrow> take_digits 4 s;
     s2 \<leftarrow> expect_char (CHR ''-'') s1;
     (M, s3) \<leftarrow> take_digits 2 s2;
     s4 \<leftarrow> expect_char (CHR ''-'') s3;
     (D, s5) \<leftarrow> take_digits 2 s4;
     s6 \<leftarrow> expect_char (CHR ''T'') s5;
     (h, s7) \<leftarrow> take_digits 2 s6;
     s8 \<leftarrow> expect_char (CHR '':'') s7;
     (mi, s9) \<leftarrow> take_digits 2 s8;
     s10 \<leftarrow> expect_char (CHR '':'') s9;
     (sec, s11) \<leftarrow> take_digits 2 s10;
     (if s11 = ''Z''
      then Some \<lparr>year = Y, month = M, day = D, hour = h, minute = mi, second = sec\<rparr>
      else None)
   }"

definition sqlite_date :: "string \<Rightarrow> string option" where
  "sqlite_date ts =
     (case sqlite_parse ts of
        None \<Rightarrow> None
      | Some dt \<Rightarrow> if valid_datetime dt then Some (iso_date dt) else None)"

text \<open>
  \<open>save_latency\<close>: the timestamp defaults to the clock's \<open>now\<close>. The INTEGER
  column holds 64-bit signed values; the driver raises \<open>OverflowError\<close> for a Python
  integer outside that range, and the \<open>except\<close> clause logs and re-raises it.
\<close>

definition save_latency ::
  "latency_db \<Rightarrow> int \<Rightarrow> datetime option \<Rightarrow> datetime \<Rightarrow> error + latency_db" where
  "save_latency db latency_ms timestamp now =
     (let timestamp' = (case timestamp of None \<Rightarrow> now | Some t \<Rightarrow> t);
          timestamp_str = strftime_iso timestamp'
      in if - (2 ^ 63) \<le> latency_ms \<and> latency_ms < 2 ^ 63
         then Inr (db @ [(timestamp_str, latency_ms)])
         else Inl OverflowError)"

text \<open>
  \<open>SELECT ... WHERE date(timestamp) = ? ORDER BY latency_ms DESC LIMIT 1\<close> and
  \<open>fetchone()\<close>. SQL leaves the order among rows of equal latency open; the model
  takes the earliest inserted of them.
\<close>

definition rows_for_date :: "latency_db \<Rightarrow> string \<Rightarrow> latency_db" where
  "rows_for_date db date = filter (\<lambda>(timestamp, latency_ms). sqlite_date timestamp = Some date) db"

definition get_max_latency_for_date :: "latency_db \<Rightarrow> string \<Rightarrow> (string \<times> int) option" where
  "get_max_latency_for_date db date =
     (case sort_key (\<lambda>(timestamp, latency_ms). - latency_ms) (rows_for_date db date) of
        [] \<Rightarrow> None
      | (timestamp_str, latency_ms) # _ \<Rightarrow> Some (timestamp_str, latency_ms))"

text \<open>
  \<open>DELETE FROM latency WHERE date(timestamp) = ?\<close>: the result is
  \<open>cursor.rowcount\<close> and the table afterwards.
\<close>

definition delete_latency_for_date :: "latency_db \<Rightarrow> string \<Rightarrow> int \<times> latency_db" where
  "delete_latency_for_date db date =
     (let deleted_count = int (length (rows_for_date db date))
      in (deleted_count,
          filter (\<lambda>(timestamp, latency_ms). sqlite_date timestamp \<noteq> Some date) db))"

section \<open>The daily report (app/main\_daily\_report.py)\<close>

text \<open>
  Text outside ASCII is held as its UTF-8 bytes. The table of display names maps the
  amoCRM type tags to their Russian names.
\<close>

definition EVENT_TYPE_NAMES :: "(string \<times> string) list" where
  "EVENT_TYPE_NAMES =
     [
      (''lead_added'', [CHR 0xD0, CHR 0x9D, CHR 0xD0, CHR 0xBE, CHR 0xD0, CHR 0xB2, CHR 0xD0,
        CHR 0xB0, CHR 0xD1, CHR 0x8F] @ '' '' @ [CHR 0xD1, CHR 0x81, CHR 0xD0, CHR 0xB4,
        CHR 0xD0, CHR 0xB5, CHR 0xD0, CHR 0xBB, CHR 0xD0, CHR 0xBA, CHR 0xD0, CHR 0xB0]),
      (''lead_deleted'', [CHR 0xD0, CHR 0xA1, CHR 0xD0, CHR 0xB4, CHR 0xD0, CHR 0xB5, CHR 0xD0,
        CHR 0xBB, CHR 0xD0, CHR 0xBA, CHR 0xD0, CHR 0xB0] @ '' '' @ [CHR 0xD1, CHR 0x83,
        CHR 0xD0, CHR 0xB4, CHR 0xD0, CHR 0xB0, CHR 0xD0, CHR 0xBB, CHR 0xD0, CHR 0xB5,
        CHR 0xD0, CHR 0xBD, CHR 0xD0, CHR 0xB0]),
      (''lead_restored'', [CHR 0xD0, CHR 0xA1, CHR 0xD0, CHR 0xB4, CHR 0xD0, CHR 0xB5,
        CHR 0xD0, CHR 0xBB, CHR 0xD0, CHR 0xBA, CHR 0xD0, CHR 0xB0] @ '' '' @ [CHR 0xD0,
        CHR 0xB2, CHR 0xD0, CHR 0xBE, CHR 0xD1, CHR 0x81, CHR 0xD1, CHR 0x81, CHR 0xD1,
        CHR 0x82, CHR 0xD0, CHR 0xB0, CHR 0xD0, CHR 0xBD, CHR 0xD0, CHR 0xBE, CHR 0xD0,
        CHR 0xB2, CHR 0xD0, CHR 0xBB, CHR 0xD0, CHR 0xB5, CHR 0xD0, CHR 0xBD, CHR 0xD0,
        CHR 0xB0]),
      (''lead_status_changed'', [CHR 0xD0, CHR 0x98, CHR 0xD0, CHR 0xB7, CHR 0xD0, CHR 0xBC,
        CHR 0xD0, CHR 0xB5, CHR 0xD0, CHR 0xBD, CHR 0xD0, CHR 0xB5, CHR 0xD0, CHR 0xBD,
        CHR 0xD0, CHR 0xB8, CHR 0xD0, CHR 0xB5] @ '' '' @ [CHR 0xD1, CHR 0x8D, CHR 0xD1,
        CHR 0x82, CHR 0xD0, CHR 0xB0, CHR 0xD0, CHR 0xBF, CHR 0xD0,
        CHR 0xB0] @ '' '' @ [CHR 0xD0, CHR 0xBF, CHR 0xD1, CHR 0x80, CHR 0xD0, CHR 0xBE,
        CHR 0xD0, CHR 0xB4, CHR 0xD0, CHR 0xB0, CHR 0xD0, CHR 0xB6, CHR 0xD0, CHR 0xB8]),
      (''lead_linked'', [CHR 0xD0, CHR 0x9F, CHR 0xD1, CHR 0x80, CHR 0xD0, CHR 0xB8, CHR 0xD0,
        CHR 0xBA, CHR 0xD1, CHR 0x80, CHR 0xD0, CHR 0xB5, CHR 0xD0, CHR 0xBF, CHR 0xD0,
        CHR 0xBB, CHR 0xD0, CHR 0xB5, CHR 0xD0, CHR 0xBD, CHR 0xD0, CHR 0xB8, CHR 0xD0,
        CHR 0xB5] @ '' '' @ [CHR 0xD1, CHR 0x81, CHR 0xD0, CHR 0xB4, CHR 0xD0, CHR 0xB5,
        CHR 0xD0, CHR 0xBB, CHR 0xD0, CHR 0xBA, CHR 0xD0, CHR 0xB8]),
      (''lead_unlinked'', [CHR 0xD0, CHR 0x9E, CHR 0xD1, CHR 0x82, CHR 0xD0, CHR 0xBA,
        CHR 0xD1, CHR 0x80, CHR 0xD0, CHR 0xB5, CHR 0xD0, CHR 0xBF, CHR 0xD0, CHR 0xBB,
        CHR 0xD0, CHR 0xB5, CHR 0xD0, CHR 0xBD, CHR 0xD0, CHR 0xB8, CHR 0xD0,
        CHR 0xB5] @ '' '' @ [CHR 0xD1, CHR 0x81, CHR 0xD0, CHR 0xB4, CHR 0xD0, CHR 0xB5,
        CHR 0xD0, CHR 0xBB, CHR 0xD0, CHR 0xBA, CHR 0xD0, CHR 0xB8]),
      (''contact_added'', [CHR 0xD0, CHR 0x9D, CHR 0xD0, CHR 0xBE, CHR 0xD0, CHR 0xB2,
        CHR 0xD1, CHR 0x8B, CHR 0xD0, CHR 0xB9] @ '' '' @ [CHR 0xD0, CHR 0xBA, CHR 0xD0,
        CHR 0xBE, CHR 0xD0, CHR 0xBD, CHR 0xD1, CHR 0x82, CHR 0xD0, CHR 0xB0, CHR 0xD0,
        CHR 0xBA, CHR 0xD1, CHR 0x82]),
      (''contact_deleted'', [CHR 0xD0, CHR 0x9A, CHR 0xD0, CHR 0xBE, CHR 0xD0, CHR 0xBD,
        CHR 0xD1, CHR 0x82, CHR 0xD0, CHR 0xB0, CHR 0xD0, CHR 0xBA, CHR 0xD1,
        CHR 0x82] @ '' '' @ [CHR 0xD1, CHR 0x83, CHR 0xD0, CHR 0xB4, CHR 0xD0, CHR 0xB0,
        CHR 0xD0, CHR 0xBB, CHR 0xD0, CHR 0xB5, CHR 0xD0, CHR 0xBD]),
      (''contact_restored'', [CHR 0xD0, CHR 0x9A, CHR 0xD0, CHR 0xBE, CHR 0xD0, CHR 0xBD,
        CHR 0xD1, CHR 0x82, CHR 0xD0, CHR 0xB0, CHR 0xD0, CHR 0xBA, CHR 0xD1,
        CHR 0x82] @ '' '' @ [CHR 0xD0, CHR 0xB2, CHR 0xD0, CHR 0xBE, CHR 0xD1, CHR 0x81,
        CHR 0xD1, CHR 0x81, CHR 0xD1, CHR 0x82, CHR 0xD0, CHR 0xB0, CHR 0xD0, CHR 0xBD,
        CHR 0xD0, CHR 0xBE, CHR 0xD0, CHR 0xB2, CHR 0xD0, CHR 0xBB, CHR 0xD0, CHR 0xB5,
        CHR 0xD0, CHR 0xBD]),
      (''contact_linked'', [CHR 0xD0, CHR 0x9F, CHR 0xD1, CHR 0x80, CHR 0xD0, CHR 0xB8,
        CHR 0xD0, CHR 0xBA, CHR 0xD1, CHR 0x80, CHR 0xD0, CHR 0xB5, CHR 0xD0, CHR 0xBF,
        CHR 0xD0, CHR 0xBB, CHR 0xD0, CHR 0xB5, CHR 0xD0, CHR 0xBD, CHR 0xD0, CHR 0xB8,
        CHR 0xD0, CHR 0xB5] @ '' '' @ [CHR 0xD0, CHR 0xBA, CHR 0xD0, CHR 0xBE, CHR 0xD0,
        CHR 0xBD, CHR 0xD1, CHR 0x82, CHR 0xD0, CHR 0xB0, CHR 0xD0, CHR 0xBA, CHR 0xD1,
        CHR 0x82, CHR 0xD0, CHR 0xB0]),
      (''contact_unlinked'', [CHR 0xD0, CHR 0x9E, CHR 0xD1, CHR 0x82, CHR 0xD0, CHR 0xBA,
        CHR 0xD1, CHR 0x80, CHR 0xD0, CHR 0xB5, CHR 0xD0, CHR 0xBF, CHR 0xD0, CHR 0xBB,
        CHR 0xD0, CHR 0xB5, CHR 0xD0, CHR 0xBD, CHR 0xD0, CHR 0xB8, CHR 0xD0,
        CHR 0xB5] @ '' '' @ [CHR 0xD0, CHR 0xBA, CHR 0xD0, CHR 0xBE, CHR 0xD0, CHR 0xBD,
        CHR 0xD1, CHR 0x82, CHR 0xD0, CHR 0xB0, CHR 0xD0, CHR 0xBA, CHR 0xD1, CHR 0x82,
        CHR 0xD0, CHR 0xB0]),
      (''company_added'', [CHR 0xD0, CHR 0x9D, CHR 0xD0, CHR 0xBE, CHR 0xD0, CHR 0xB2,
        CHR 0xD0, CHR 0xB0, CHR 0xD1, CHR 0x8F] @ '' '' @ [CHR 0xD0, CHR 0xBA, CHR 0xD0,
        CHR 0xBE, CHR 0xD0, CHR 0xBC, CHR 0xD0, CHR 0xBF, CHR 0xD0, CHR 0xB0, CHR 0xD0,
        CHR 0xBD, CHR 0xD0, CHR 0xB8, CHR 0xD1, CHR 0x8F]),
      (''company_deleted'', [CHR 0xD0, CHR 0x9A, CHR 0xD0, CHR 0xBE, CHR 0xD0, CHR 0xBC,
        CHR 0xD0, CHR 0xBF, CHR 0xD0, CHR 0xB0, CHR 0xD0, CHR 0xBD, CHR 0xD0, CHR 0xB8,
        CHR 0xD1, CHR 0x8F] @ '' '' @ [CHR 0xD1, CHR 0x83, CHR 0xD0, CHR 0xB4, CHR 0xD0,
        CHR 0xB0, CHR 0xD0, CHR 0xBB, CHR 0xD0, CHR 0xB5, CHR 0xD0, CHR 0xBD, CHR 0xD0,
        CHR 0xB0]),
      (''company_restored'', [CHR 0xD0, CHR 0x9A, CHR 0xD0, CHR 0xBE, CHR 0xD0, CHR 0xBC,
        CHR 0xD0, CHR 0xBF, CHR 0xD0, CHR 0xB0, CHR 0xD0, CHR 0xBD, CHR 0xD0, CHR 0xB8,
        CHR 0xD1, CHR 0x8F] @ '' '' @ [CHR 0xD0, CHR 0xB2, CHR 0xD0, CHR 0xBE, CHR 0xD1,
        CHR 0x81, CHR 0xD1, CHR 0x81, CHR 0xD1, CHR 0x82, CHR 0xD0, CHR 0xB0, CHR 0xD0,
        CHR 0xBD, CHR 0xD0, CHR 0xBE, CHR 0xD0, CHR 0xB2, CHR 0xD0, CHR 0xBB, CHR 0xD0,
        CHR 0xB5, CHR 0xD0, CHR 0xBD, CHR 0xD0, CHR 0xB0]),
      (''company_linked'', [CHR 0xD0, CHR 0x9F, CHR 0xD1, CHR 0x80, CHR 0xD0, CHR 0xB8,
        CHR 0xD0, CHR 0xBA, CHR 0xD1, CHR 0x80, CHR 0xD0, CHR 0xB5, CHR 0xD0, CHR 0xBF,
        CHR 0xD0, CHR 0xBB, CHR 0xD0, CHR 0xB5, CHR 0xD0, CHR 0xBD, CHR 0xD0, CHR 0xB8,
        CHR 0xD0, CHR 0xB5] @ '' '' @ [CHR 0xD0, CHR 0xBA, CHR 0xD0, CHR 0xBE, CHR 0xD0,
        CHR 0xBC, CHR 0xD0, CHR 0xBF, CHR 0xD0, CHR 0xB0, CHR 0xD0, CHR 0xBD, CHR 0xD0,
        CHR 0xB8, CHR 0xD0, CHR 0xB8]),
      (''company_unlinked'', [CHR 0xD0, CHR 0x9E, CHR 0xD1, CHR 0x82, CHR 0xD0, CHR 0xBA,
        CHR 0xD1, CHR 0x80, CHR 0xD0, CHR 0xB5, CHR 0xD0, CHR 0xBF, CHR 0xD0, CHR 0xBB,
        CHR 0xD0, CHR 0xB5, CHR 0xD0, CHR 0xBD, CHR 0xD0, CHR 0xB8, CHR 0xD0,
        CHR 0xB5] @ '' '' @ [CHR 0xD0, CHR 0xBA, CHR 0xD0, CHR 0xBE, CHR 0xD0, CHR 0xBC,
        CHR 0xD0, CHR 0xBF, CHR 0xD0, CHR 0xB0, CHR 0xD0, CHR 0xBD, CHR 0xD0, CHR 0xB8,
        CHR 0xD0, CHR 0xB8]),
      (''customer_added'', [CHR 0xD0, CHR 0x9D, CHR 0xD0, CHR 0xBE, CHR 0xD0, CHR 0xB2,
        CHR 0xD1, CHR 0x8B, CHR 0xD0, CHR 0xB9] @ '' '' @ [CHR 0xD0, CHR 0xBF, CHR 0xD0,
        CHR 0xBE, CHR 0xD0, CHR 0xBA, CHR 0xD1, CHR 0x83, CHR 0xD0, CHR 0xBF, CHR 0xD0,
        CHR 0xB0, CHR 0xD1, CHR 0x82, CHR 0xD0, CHR 0xB5, CHR 0xD0, CHR 0xBB, CHR 0xD1,
        CHR 0x8C]),
      (''customer_deleted'', [CHR 0xD0, CHR 0x9F, CHR 0xD0, CHR 0xBE, CHR 0xD0, CHR 0xBA,
        CHR 0xD1, CHR 0x83, CHR 0xD0, CHR 0xBF, CHR 0xD0, CHR 0xB0, CHR 0xD1, CHR 0x82,
        CHR 0xD0, CHR 0xB5, CHR 0xD0, CHR 0xBB, CHR 0xD1, CHR 0x8C] @ '' '' @ [CHR 0xD1,
        CHR 0x83, CHR 0xD0, CHR 0xB4, CHR 0xD0, CHR 0xB0, CHR 0xD0, CHR 0xBB, CHR 0xD0,
        CHR 0xB5, CHR 0xD0, CHR 0xBD]),
      (''customer_status_changed'', [CHR 0xD0, CHR 0x98, CHR 0xD0, CHR 0xB7, CHR 0xD0,
        CHR 0xBC, CHR 0xD0, CHR 0xB5, CHR 0xD0, CHR 0xBD, CHR 0xD0, CHR 0xB5, CHR 0xD0,
        CHR 0xBD, CHR 0xD0, CHR 0xB8, CHR 0xD0, CHR 0xB5] @ '' '' @ [CHR 0xD1, CHR 0x8D,
        CHR 0xD1, CHR 0x82, CHR 0xD0, CHR 0xB0, CHR 0xD0, CHR 0xBF, CHR 0xD0,
        CHR 0xB0] @ '' '' @ [CHR 0xD0, CHR 0xBF, CHR 0xD0, CHR 0xBE, CHR 0xD0, CHR 0xBA,
        CHR 0xD1, CHR 0x83, CHR 0xD0, CHR 0xBF, CHR 0xD0, CHR 0xB0, CHR 0xD1, CHR 0x82,
        CHR 0xD0, CHR 0xB5, CHR 0xD0, CHR 0xBB, CHR 0xD1, CHR 0x8F]),
      (''customer_linked'', [CHR 0xD0, CHR 0x9F, CHR 0xD1, CHR 0x80, CHR 0xD0, CHR 0xB8,
        CHR 0xD0, CHR 0xBA, CHR 0xD1, CHR 0x80, CHR 0xD0, CHR 0xB5, CHR 0xD0, CHR 0xBF,
        CHR 0xD0, CHR 0xBB, CHR 0xD0, CHR 0xB5, CHR 0xD0, CHR 0xBD, CHR 0xD0, CHR 0xB8,
        CHR 0xD0, CHR 0xB5] @ '' '' @ [CHR 0xD0, CHR 0xBF, CHR 0xD0, CHR 0xBE, CHR 0xD0,
        CHR 0xBA, CHR 0xD1, CHR 0x83, CHR 0xD0, CHR 0xBF, CHR 0xD0, CHR 0xB0, CHR 0xD1,
        CHR 0x82, CHR 0xD0, CHR 0xB5, CHR 0xD0, CHR 0xBB, CHR 0xD1, CHR 0x8F]),
      (''customer_unlinked'', [CHR 0xD0, CHR 0x9E, CHR 0xD1, CHR 0x82, CHR 0xD0, CHR 0xBA,
        CHR 0xD1, CHR 0x80, CHR 0xD0, CHR 0xB5, CHR 0xD0, CHR 0xBF, CHR 0xD0, CHR 0xBB,
        CHR 0xD0, CHR 0xB5, CHR 0xD0, CHR 0xBD, CHR 0xD0, CHR 0xB8, CHR 0xD0,
        CHR 0xB5] @ '' '' @ [CHR 0xD0, CHR 0xBF, CHR 0xD0, CHR 0xBE, CHR 0xD0, CHR 0xBA,
        CHR 0xD1, CHR 0x83, CHR 0xD0, CHR 0xBF, CHR 0xD0, CHR 0xB0, CHR 0xD1, CHR 0x82,
        CHR 0xD0, CHR 0xB5, CHR 0xD0, CHR 0xBB, CHR 0xD1, CHR 0x8F]),
      (''task_added'', [CHR 0xD0, CHR 0x9D, CHR 0xD0, CHR 0xBE, CHR 0xD0, CHR 0xB2, CHR 0xD0,
        CHR 0xB0, CHR 0xD1, CHR 0x8F] @ '' '' @ [CHR 0xD0, CHR 0xB7, CHR 0xD0, CHR 0xB0,
        CHR 0xD0, CHR 0xB4, CHR 0xD0, CHR 0xB0, CHR 0xD1, CHR 0x87, CHR 0xD0, CHR 0xB0]),
      (''task_deleted'', [CHR 0xD0, CHR 0x97, CHR 0xD0, CHR 0xB0, CHR 0xD0, CHR 0xB4, CHR 0xD0,
        CHR 0xB0, CHR 0xD1, CHR 0x87, CHR 0xD0, CHR 0xB0] @ '' '' @ [CHR 0xD1, CHR 0x83,
        CHR 0xD0, CHR 0xB4, CHR 0xD0, CHR 0xB0, CHR 0xD0, CHR 0xBB, CHR 0xD0, CHR 0xB5,
        CHR 0xD0, CHR 0xBD, CHR 0xD0, CHR 0xB0]),
      (''task_completed'', [CHR 0xD0, CHR 0x97, CHR 0xD0, CHR 0xB0, CHR 0xD0, CHR 0xB2,
        CHR 0xD0, CHR 0xB5, CHR 0xD1, CHR 0x80, CHR 0xD1, CHR 0x88, CHR 0xD0, CHR 0xB5,
        CHR 0xD0, CHR 0xBD, CHR 0xD0, CHR 0xB8, CHR 0xD0, CHR 0xB5] @ '' '' @ [CHR 0xD0,
        CHR 0xB7, CHR 0xD0, CHR 0xB0, CHR 0xD0, CHR 0xB4, CHR 0xD0, CHR 0xB0, CHR 0xD1,
        CHR 0x87, CHR 0xD0, CHR 0xB8]),
      (''task_type_changed'', [CHR 0xD0, CHR 0x98, CHR 0xD0, CHR 0xB7, CHR 0xD0, CHR 0xBC,
        CHR 0xD0, CHR 0xB5, CHR 0xD0, CHR 0xBD, CHR 0xD0, CHR 0xB5, CHR 0xD0, CHR 0xBD,
        CHR 0xD0, CHR 0xB8, CHR 0xD0, CHR 0xB5] @ '' '' @ [CHR 0xD1, CHR 0x82, CHR 0xD0,
        CHR 0xB8, CHR 0xD0, CHR 0xBF, CHR 0xD0, CHR 0xB0] @ '' '' @ [CHR 0xD0, CHR 0xB7,
        CHR 0xD0, CHR 0xB0, CHR 0xD0, CHR 0xB4, CHR 0xD0, CHR 0xB0, CHR 0xD1, CHR 0x87,
        CHR 0xD0, CHR 0xB8]),
      (''task_text_changed'', [CHR 0xD0, CHR 0x98, CHR 0xD0, CHR 0xB7, CHR 0xD0, CHR 0xBC,
        CHR 0xD0, CHR 0xB5, CHR 0xD0, CHR 0xBD, CHR 0xD0, CHR 0xB5, CHR 0xD0, CHR 0xBD,
        CHR 0xD0, CHR 0xB8, CHR 0xD0, CHR 0xB5] @ '' '' @ [CHR 0xD1, CHR 0x82, CHR 0xD0,
        CHR 0xB5, CHR 0xD0, CHR 0xBA, CHR 0xD1, CHR 0x81, CHR 0xD1, CHR 0x82, CHR 0xD0,
        CHR 0xB0] @ '' '' @ [CHR 0xD0, CHR 0xB7, CHR 0xD0, CHR 0xB0, CHR 0xD0, CHR 0xB4,
        CHR 0xD0, CHR 0xB0, CHR 0xD1, CHR 0x87, CHR 0xD0, CHR 0xB8]),
      (''task_deadline_changed'', [CHR 0xD0, CHR 0x98, CHR 0xD0, CHR 0xB7, CHR 0xD0, CHR 0xBC,
        CHR 0xD0, CHR 0xB5, CHR 0xD0, CHR 0xBD, CHR 0xD0, CHR 0xB5, CHR 0xD0, CHR 0xBD,
        CHR 0xD0, CHR 0xB8, CHR 0xD0, CHR 0xB5] @ '' '' @ [CHR 0xD0, CHR 0xB4, CHR 0xD0,
        CHR 0xB0, CHR 0xD1, CHR 0x82, CHR 0xD1, CHR 0x8B] @ '' '' @ [CHR 0xD0, CHR 0xB8,
        CHR 0xD1, CHR 0x81, CHR 0xD0, CHR 0xBF, CHR 0xD0, CHR 0xBE, CHR 0xD0, CHR 0xBB,
        CHR 0xD0, CHR 0xBD, CHR 0xD0, CHR 0xB5, CHR 0xD0, CHR 0xBD, CHR 0xD0, CHR 0xB8,
        CHR 0xD1, CHR 0x8F] @ '' '' @ [CHR 0xD0, CHR 0xB7, CHR 0xD0, CHR 0xB0, CHR 0xD0,
        CHR 0xB4, CHR 0xD0, CHR 0xB0, CHR 0xD1, CHR 0x87, CHR 0xD0, CHR 0xB8]),
      (''task_result_added'', [CHR 0xD0, CHR 0xA0, CHR 0xD0, CHR 0xB5, CHR 0xD0, CHR 0xB7,
        CHR 0xD1, CHR 0x83, CHR 0xD0, CHR 0xBB, CHR 0xD1, CHR 0x8C, CHR 0xD1, CHR 0x82,
        CHR 0xD0, CHR 0xB0, CHR 0xD1, CHR 0x82] @ '' '' @ [CHR 0xD0, CHR 0xBF, CHR 0xD0,
        CHR 0xBE] @ '' '' @ [CHR 0xD0, CHR 0xB7, CHR 0xD0, CHR 0xB0, CHR 0xD0, CHR 0xB4,
        CHR 0xD0, CHR 0xB0, CHR 0xD1, CHR 0x87, CHR 0xD0, CHR 0xB5]),
      (''incoming_call'', [CHR 0xD0, CHR 0x92, CHR 0xD1, CHR 0x85, CHR 0xD0, CHR 0xBE,
        CHR 0xD0, CHR 0xB4, CHR 0xD1, CHR 0x8F, CHR 0xD1, CHR 0x89, CHR 0xD0, CHR 0xB8,
        CHR 0xD0, CHR 0xB9] @ '' '' @ [CHR 0xD0, CHR 0xB7, CHR 0xD0, CHR 0xB2, CHR 0xD0,
        CHR 0xBE, CHR 0xD0, CHR 0xBD, CHR 0xD0, CHR 0xBE, CHR 0xD0, CHR 0xBA]),
      (''outgoing_call'', [CHR 0xD0, CHR 0x98, CHR 0xD1, CHR 0x81, CHR 0xD1, CHR 0x85,
        CHR 0xD0, CHR 0xBE, CHR 0xD0, CHR 0xB4, CHR 0xD1, CHR 0x8F, CHR 0xD1, CHR 0x89,
        CHR 0xD0, CHR 0xB8, CHR 0xD0, CHR 0xB9] @ '' '' @ [CHR 0xD0, CHR 0xB7, CHR 0xD0,
        CHR 0xB2, CHR 0xD0, CHR 0xBE, CHR 0xD0, CHR 0xBD, CHR 0xD0, CHR 0xBE, CHR 0xD0,
        CHR 0xBA]),
      (''incoming_chat_message'', [CHR 0xD0, CHR 0x92, CHR 0xD1, CHR 0x85, CHR 0xD0, CHR 0xBE,
        CHR 0xD0, CHR 0xB4, CHR 0xD1, CHR 0x8F, CHR 0xD1, CHR 0x89, CHR 0xD0, CHR 0xB5,
        CHR 0xD0, CHR 0xB5] @ '' '' @ [CHR 0xD1, CHR 0x81, CHR 0xD0, CHR 0xBE, CHR 0xD0,
        CHR 0xBE, CHR 0xD0, CHR 0xB1, CHR 0xD1, CHR 0x89, CHR 0xD0, CHR 0xB5, CHR 0xD0,
        CHR 0xBD, CHR 0xD0, CHR 0xB8, CHR 0xD0, CHR 0xB5]),
      (''outgoing_chat_message'', [CHR 0xD0, CHR 0x98, CHR 0xD1, CHR 0x81, CHR 0xD1, CHR 0x85,
        CHR 0xD0, CHR 0xBE, CHR 0xD0, CHR 0xB4, CHR 0xD1, CHR 0x8F, CHR 0xD1, CHR 0x89,
        CHR 0xD0, CHR 0xB5, CHR 0xD0, CHR 0xB5] @ '' '' @ [CHR 0xD1, CHR 0x81, CHR 0xD0,
        CHR 0xBE, CHR 0xD0, CHR 0xBE, CHR 0xD0, CHR 0xB1, CHR 0xD1, CHR 0x89, CHR 0xD0,
        CHR 0xB5, CHR 0xD0, CHR 0xBD, CHR 0xD0, CHR 0xB8, CHR 0xD0, CHR 0xB5]),
      (''entity_direct_message'', [CHR 0xD0, CHR 0xA1, CHR 0xD0, CHR 0xBE, CHR 0xD0, CHR 0xBE,
        CHR 0xD0, CHR 0xB1, CHR 0xD1, CHR 0x89, CHR 0xD0, CHR 0xB5, CHR 0xD0, CHR 0xBD,
        CHR 0xD0, CHR 0xB8, CHR 0xD0, CHR 0xB5] @ '' '' @ [CHR 0xD0, CHR 0xB2, CHR 0xD0,
        CHR 0xBD, CHR 0xD1, CHR 0x83, CHR 0xD1, CHR 0x82, CHR 0xD1, CHR 0x80, CHR 0xD0,
        CHR 0xB5, CHR 0xD0, CHR 0xBD, CHR 0xD0, CHR 0xBD, CHR 0xD0, CHR 0xB5, CHR 0xD0,
        CHR 0xB3, CHR 0xD0, CHR 0xBE] @ '' '' @ [CHR 0xD1, CHR 0x87, CHR 0xD0, CHR 0xB0,
        CHR 0xD1, CHR 0x82, CHR 0xD0, CHR 0xB0]),
      (''incoming_sms'', [CHR 0xD0, CHR 0x92, CHR 0xD1, CHR 0x85, CHR 0xD0, CHR 0xBE, CHR 0xD0,
        CHR 0xB4, CHR 0xD1, CHR 0x8F, CHR 0xD1, CHR 0x89, CHR 0xD0, CHR 0xB5, CHR 0xD0,
        CHR 0xB5] @ '' SMS''),
      (''outgoing_sms'', [CHR 0xD0, CHR 0x98, CHR 0xD1, CHR 0x81, CHR 0xD1, CHR 0x85, CHR 0xD0,
        CHR 0xBE, CHR 0xD0, CHR 0xB4, CHR 0xD1, CHR 0x8F, CHR 0xD1, CHR 0x89, CHR 0xD0,
        CHR 0xB5, CHR 0xD0, CHR 0xB5] @ '' SMS''),
      (''entity_tag_added'', [CHR 0xD0, CHR 0xA2, CHR 0xD0, CHR 0xB5, CHR 0xD0, CHR 0xB3,
        CHR 0xD0, CHR 0xB8] @ '' '' @ [CHR 0xD0, CHR 0xB4, CHR 0xD0, CHR 0xBE, CHR 0xD0,
        CHR 0xB1, CHR 0xD0, CHR 0xB0, CHR 0xD0, CHR 0xB2, CHR 0xD0, CHR 0xBB, CHR 0xD0,
        CHR 0xB5, CHR 0xD0, CHR 0xBD, CHR 0xD1, CHR 0x8B]),
      (''entity_tag_deleted'', [CHR 0xD0, CHR 0xA2, CHR 0xD0, CHR 0xB5, CHR 0xD0, CHR 0xB3,
        CHR 0xD0, CHR 0xB8] @ '' '' @ [CHR 0xD1, CHR 0x83, CHR 0xD0, CHR 0xB1, CHR 0xD1,
        CHR 0x80, CHR 0xD0, CHR 0xB0, CHR 0xD0, CHR 0xBD, CHR 0xD1, CHR 0x8B]),
      (''entity_linked'', [CHR 0xD0, CHR 0x9F, CHR 0xD1, CHR 0x80, CHR 0xD0, CHR 0xB8,
        CHR 0xD0, CHR 0xBA, CHR 0xD1, CHR 0x80, CHR 0xD0, CHR 0xB5, CHR 0xD0, CHR 0xBF,
        CHR 0xD0, CHR 0xBB, CHR 0xD0, CHR 0xB5, CHR 0xD0, CHR 0xBD, CHR 0xD0, CHR 0xB8,
        CHR 0xD0, CHR 0xB5]),
      (''entity_unlinked'', [CHR 0xD0, CHR 0x9E, CHR 0xD1, CHR 0x82, CHR 0xD0, CHR 0xBA,
        CHR 0xD1, CHR 0x80, CHR 0xD0, CHR 0xB5, CHR 0xD0, CHR 0xBF, CHR 0xD0, CHR 0xBB,
        CHR 0xD0, CHR 0xB5, CHR 0xD0, CHR 0xBD, CHR 0xD0, CHR 0xB8, CHR 0xD0, CHR 0xB5]),
      (''sale_field_changed'', [CHR 0xD0, CHR 0x98, CHR 0xD0, CHR 0xB7, CHR 0xD0, CHR 0xBC,
        CHR 0xD0, CHR 0xB5, CHR 0xD0, CHR 0xBD, CHR 0xD0, CHR 0xB5, CHR 0xD0, CHR 0xBD,
        CHR 0xD0, CHR 0xB8, CHR 0xD0, CHR 0xB5] @ '' '' @ [CHR 0xD0, CHR 0xBF, CHR 0xD0,
        CHR 0xBE, CHR 0xD0, CHR 0xBB, CHR 0xD1, CHR 0x8F] @ '' '' @ [CHR 0xD0, CHR 0x91,
        CHR 0xD1, CHR 0x8E, CHR 0xD0, CHR 0xB4, CHR 0xD0, CHR 0xB6, CHR 0xD0, CHR 0xB5,
        CHR 0xD1, CHR 0x82]),
      (''name_field_changed'', [CHR 0xD0, CHR 0x98, CHR 0xD0, CHR 0xB7, CHR 0xD0, CHR 0xBC,
        CHR 0xD0, CHR 0xB5, CHR 0xD0, CHR 0xBD, CHR 0xD0, CHR 0xB5, CHR 0xD0, CHR 0xBD,
        CHR 0xD0, CHR 0xB8, CHR 0xD0, CHR 0xB5] @ '' '' @ [CHR 0xD0, CHR 0xBF, CHR 0xD0,
        CHR 0xBE, CHR 0xD0, CHR 0xBB, CHR 0xD1, CHR 0x8F] @ '' '' @ [CHR 0xD0, CHR 0x9D,
        CHR 0xD0, CHR 0xB0, CHR 0xD0, CHR 0xB7, CHR 0xD0, CHR 0xB2, CHR 0xD0, CHR 0xB0,
        CHR 0xD0, CHR 0xBD, CHR 0xD0, CHR 0xB8, CHR 0xD0, CHR 0xB5]),
      (''ltv_field_changed'', [CHR 0xD0, CHR 0xA1, CHR 0xD1, CHR 0x83, CHR 0xD0, CHR 0xBC,
        CHR 0xD0, CHR 0xBC, CHR 0xD0, CHR 0xB0] @ '' '' @ [CHR 0xD0, CHR 0xBF, CHR 0xD0,
        CHR 0xBE, CHR 0xD0, CHR 0xBA, CHR 0xD1, CHR 0x83, CHR 0xD0, CHR 0xBF, CHR 0xD0,
        CHR 0xBE, CHR 0xD0, CHR 0xBA]),
      (''custom_field_value_changed'', [CHR 0xD0, CHR 0x98, CHR 0xD0, CHR 0xB7, CHR 0xD0,
        CHR 0xBC, CHR 0xD0, CHR 0xB5, CHR 0xD0, CHR 0xBD, CHR 0xD0, CHR 0xB5, CHR 0xD0,
        CHR 0xBD, CHR 0xD0, CHR 0xB8, CHR 0xD0, CHR 0xB5] @ '' '' @ [CHR 0xD0, CHR 0xBF,
        CHR 0xD0, CHR 0xBE, CHR 0xD0, CHR 0xBB, CHR 0xD1, CHR 0x8F]),
      (''entity_responsible_changed'', [CHR 0xD0, CHR 0x9E, CHR 0xD1, CHR 0x82, CHR 0xD0,
        CHR 0xB2, CHR 0xD0, CHR 0xB5, CHR 0xD1, CHR 0x82, CHR 0xD1, CHR 0x81, CHR 0xD1,
        CHR 0x82, CHR 0xD0, CHR 0xB2, CHR 0xD0, CHR 0xB5, CHR 0xD0, CHR 0xBD, CHR 0xD0,
        CHR 0xBD, CHR 0xD1, CHR 0x8B, CHR 0xD0, CHR 0xB9] @ '' '' @ [CHR 0xD0, CHR 0xB8,
        CHR 0xD0, CHR 0xB7, CHR 0xD0, CHR 0xBC, CHR 0xD0, CHR 0xB5, CHR 0xD0, CHR 0xBD,
        CHR 0xD0, CHR 0xB5, CHR 0xD0, CHR 0xBD]),
      (''robot_replied'', [CHR 0xD0, CHR 0x9E, CHR 0xD1, CHR 0x82, CHR 0xD0, CHR 0xB2,
        CHR 0xD0, CHR 0xB5, CHR 0xD1, CHR 0x82] @ '' '' @ [CHR 0xD1, CHR 0x80, CHR 0xD0,
        CHR 0xBE, CHR 0xD0, CHR 0xB1, CHR 0xD0, CHR 0xBE, CHR 0xD1, CHR 0x82, CHR 0xD0,
        CHR 0xB0]),
      (''intent_identified'', [CHR 0xD0, CHR 0xA2, CHR 0xD0, CHR 0xB5, CHR 0xD0, CHR 0xBC,
        CHR 0xD0, CHR 0xB0] @ '' '' @ [CHR 0xD0, CHR 0xB2, CHR 0xD0, CHR 0xBE, CHR 0xD0,
        CHR 0xBF, CHR 0xD1, CHR 0x80, CHR 0xD0, CHR 0xBE, CHR 0xD1, CHR 0x81, CHR 0xD0,
        CHR 0xB0] @ '' '' @ [CHR 0xD0, CHR 0xBE, CHR 0xD0, CHR 0xBF, CHR 0xD1, CHR 0x80,
        CHR 0xD0, CHR 0xB5, CHR 0xD0, CHR 0xB4, CHR 0xD0, CHR 0xB5, CHR 0xD0, CHR 0xBB,
        CHR 0xD0, CHR 0xB5, CHR 0xD0, CHR 0xBD, CHR 0xD0, CHR 0xB0]),
      (''nps_rate_added'', [CHR 0xD0, CHR 0x9D, CHR 0xD0, CHR 0xBE, CHR 0xD0, CHR 0xB2,
        CHR 0xD0, CHR 0xB0, CHR 0xD1, CHR 0x8F] @ '' '' @ [CHR 0xD0, CHR 0xBE, CHR 0xD1,
        CHR 0x86, CHR 0xD0, CHR 0xB5, CHR 0xD0, CHR 0xBD, CHR 0xD0, CHR 0xBA, CHR 0xD0,
        CHR 0xB0] @ '' NPS''),
      (''link_followed'', [CHR 0xD0, CHR 0x9F, CHR 0xD0, CHR 0xB5, CHR 0xD1, CHR 0x80,
        CHR 0xD0, CHR 0xB5, CHR 0xD1, CHR 0x85, CHR 0xD0, CHR 0xBE, CHR 0xD0,
        CHR 0xB4] @ '' '' @ [CHR 0xD0, CHR 0xBF, CHR 0xD0, CHR 0xBE] @ '' '' @ [CHR 0xD1,
        CHR 0x81, CHR 0xD1, CHR 0x81, CHR 0xD1, CHR 0x8B, CHR 0xD0, CHR 0xBB, CHR 0xD0,
        CHR 0xBA, CHR 0xD0, CHR 0xB5]),
      (''transaction_added'', [CHR 0xD0, CHR 0x94, CHR 0xD0, CHR 0xBE, CHR 0xD0, CHR 0xB1,
        CHR 0xD0, CHR 0xB0, CHR 0xD0, CHR 0xB2, CHR 0xD0, CHR 0xBB, CHR 0xD0, CHR 0xB5,
        CHR 0xD0, CHR 0xBD, CHR 0xD0, CHR 0xB0] @ '' '' @ [CHR 0xD0, CHR 0xBF, CHR 0xD0,
        CHR 0xBE, CHR 0xD0, CHR 0xBA, CHR 0xD1, CHR 0x83, CHR 0xD0, CHR 0xBF, CHR 0xD0,
        CHR 0xBA, CHR 0xD0, CHR 0xB0]),
      (''common_note_added'', [CHR 0xD0, CHR 0x9D, CHR 0xD0, CHR 0xBE, CHR 0xD0, CHR 0xB2,
        CHR 0xD0, CHR 0xBE, CHR 0xD0, CHR 0xB5] @ '' '' @ [CHR 0xD0, CHR 0xBF, CHR 0xD1,
        CHR 0x80, CHR 0xD0, CHR 0xB8, CHR 0xD0, CHR 0xBC, CHR 0xD0, CHR 0xB5, CHR 0xD1,
        CHR 0x87, CHR 0xD0, CHR 0xB0, CHR 0xD0, CHR 0xBD, CHR 0xD0, CHR 0xB8, CHR 0xD0,
        CHR 0xB5]),
      (''common_note_deleted'', [CHR 0xD0, CHR 0x9F, CHR 0xD1, CHR 0x80, CHR 0xD0, CHR 0xB8,
        CHR 0xD0, CHR 0xBC, CHR 0xD0, CHR 0xB5, CHR 0xD1, CHR 0x87, CHR 0xD0, CHR 0xB0,
        CHR 0xD0, CHR 0xBD, CHR 0xD0, CHR 0xB8, CHR 0xD0, CHR 0xB5] @ '' '' @ [CHR 0xD1,
        CHR 0x83, CHR 0xD0, CHR 0xB4, CHR 0xD0, CHR 0xB0, CHR 0xD0, CHR 0xBB, CHR 0xD0,
        CHR 0xB5, CHR 0xD0, CHR 0xBD, CHR 0xD0, CHR 0xBE]),
      (''attachment_note_added'', [CHR 0xD0, CHR 0x94, CHR 0xD0, CHR 0xBE, CHR 0xD0, CHR 0xB1,
        CHR 0xD0, CHR 0xB0, CHR 0xD0, CHR 0xB2, CHR 0xD0, CHR 0xBB, CHR 0xD0, CHR 0xB5,
        CHR 0xD0, CHR 0xBD] @ '' '' @ [CHR 0xD0, CHR 0xBD, CHR 0xD0, CHR 0xBE, CHR 0xD0,
        CHR 0xB2, CHR 0xD1, CHR 0x8B, CHR 0xD0, CHR 0xB9] @ '' '' @ [CHR 0xD1, CHR 0x84,
        CHR 0xD0, CHR 0xB0, CHR 0xD0, CHR 0xB9, CHR 0xD0, CHR 0xBB]),
      (''targeting_in_note_added'', [CHR 0xD0, CHR 0x94, CHR 0xD0, CHR 0xBE, CHR 0xD0,
        CHR 0xB1, CHR 0xD0, CHR 0xB0, CHR 0xD0, CHR 0xB2, CHR 0xD0, CHR 0xBB, CHR 0xD0,
        CHR 0xB5, CHR 0xD0, CHR 0xBD, CHR 0xD0, CHR 0xB8, CHR 0xD0,
        CHR 0xB5] @ '' '' @ [CHR 0xD0, CHR 0xB2] @ '' '' @ [CHR 0xD1, CHR 0x80, CHR 0xD0,
        CHR 0xB5, CHR 0xD1, CHR 0x82, CHR 0xD0, CHR 0xB0, CHR 0xD1, CHR 0x80, CHR 0xD0,
        CHR 0xB3, CHR 0xD0, CHR 0xB5, CHR 0xD1, CHR 0x82, CHR 0xD0, CHR 0xB8, CHR 0xD0,
        CHR 0xBD, CHR 0xD0, CHR 0xB3]),
      (''targeting_out_note_added'', [CHR 0xD0, CHR 0xA3, CHR 0xD0, CHR 0xB4, CHR 0xD0,
        CHR 0xB0, CHR 0xD0, CHR 0xBB, CHR 0xD0, CHR 0xB5, CHR 0xD0, CHR 0xBD, CHR 0xD0,
        CHR 0xB8, CHR 0xD0, CHR 0xB5] @ '' '' @ [CHR 0xD0, CHR 0xB8, CHR 0xD0,
        CHR 0xB7] @ '' '' @ [CHR 0xD1, CHR 0x80, CHR 0xD0, CHR 0xB5, CHR 0xD1, CHR 0x82,
        CHR 0xD0, CHR 0xB0, CHR 0xD1, CHR 0x80, CHR 0xD0, CHR 0xB3, CHR 0xD0, CHR 0xB5,
        CHR 0xD1, CHR 0x82, CHR 0xD0, CHR 0xB8, CHR 0xD0, CHR 0xBD, CHR 0xD0, CHR 0xB3,
        CHR 0xD0, CHR 0xB0]),
      (''geo_note_added'', [CHR 0xD0, CHR 0x9D, CHR 0xD0, CHR 0xBE, CHR 0xD0, CHR 0xB2,
        CHR 0xD0, CHR 0xBE, CHR 0xD0, CHR 0xB5] @ '' '' @ [CHR 0xD0, CHR 0xBF, CHR 0xD1,
        CHR 0x80, CHR 0xD0, CHR 0xB8, CHR 0xD0, CHR 0xBC, CHR 0xD0, CHR 0xB5, CHR 0xD1,
        CHR 0x87, CHR 0xD0, CHR 0xB0, CHR 0xD0, CHR 0xBD, CHR 0xD0, CHR 0xB8, CHR 0xD0,
        CHR 0xB5] @ '' '' @ [CHR 0xD1, CHR 0x81] @ '' '' @ [CHR 0xD0, CHR 0xB3, CHR 0xD0,
        CHR 0xB5, CHR 0xD0, CHR 0xBE] @ ''-'' @ [CHR 0xD0, CHR 0xBC, CHR 0xD0, CHR 0xB5,
        CHR 0xD1, CHR 0x82, CHR 0xD0, CHR 0xBA, CHR 0xD0, CHR 0xBE, CHR 0xD0, CHR 0xB9]),
      (''service_note_added'', [CHR 0xD0, CHR 0x9D, CHR 0xD0, CHR 0xBE, CHR 0xD0, CHR 0xB2,
        CHR 0xD0, CHR 0xBE, CHR 0xD0, CHR 0xB5] @ '' '' @ [CHR 0xD1, CHR 0x81, CHR 0xD0,
        CHR 0xB8, CHR 0xD1, CHR 0x81, CHR 0xD1, CHR 0x82, CHR 0xD0, CHR 0xB5, CHR 0xD0,
        CHR 0xBC, CHR 0xD0, CHR 0xBD, CHR 0xD0, CHR 0xBE, CHR 0xD0,
        CHR 0xB5] @ '' '' @ [CHR 0xD0, CHR 0xBF, CHR 0xD1, CHR 0x80, CHR 0xD0, CHR 0xB8,
        CHR 0xD0, CHR 0xBC, CHR 0xD0, CHR 0xB5, CHR 0xD1, CHR 0x87, CHR 0xD0, CHR 0xB0,
        CHR 0xD0, CHR 0xBD, CHR 0xD0, CHR 0xB8, CHR 0xD0, CHR 0xB5]),
      (''site_visit_note_added'', [CHR 0xD0, CHR 0x97, CHR 0xD0, CHR 0xB0, CHR 0xD1, CHR 0x85,
        CHR 0xD0, CHR 0xBE, CHR 0xD0, CHR 0xB4] @ '' '' @ [CHR 0xD0, CHR 0xBD, CHR 0xD0,
        CHR 0xB0] @ '' '' @ [CHR 0xD1, CHR 0x81, CHR 0xD0, CHR 0xB0, CHR 0xD0, CHR 0xB9,
        CHR 0xD1, CHR 0x82]),
      (''message_to_cashier_note_added'', ''LifePay: '' @ [CHR 0xD0, CHR 0xA1, CHR 0xD0,
        CHR 0xBE, CHR 0xD0, CHR 0xBE, CHR 0xD0, CHR 0xB1, CHR 0xD1, CHR 0x89, CHR 0xD0,
        CHR 0xB5, CHR 0xD0, CHR 0xBD, CHR 0xD0, CHR 0xB8, CHR 0xD0,
        CHR 0xB5] @ '' '' @ [CHR 0xD0, CHR 0xBA, CHR 0xD0, CHR 0xB0, CHR 0xD1, CHR 0x81,
        CHR 0xD1, CHR 0x81, CHR 0xD0, CHR 0xB8, CHR 0xD1, CHR 0x80, CHR 0xD1, CHR 0x83]),
      (''key_action_completed'', [CHR 0xD0, CHR 0x9A, CHR 0xD0, CHR 0xBB, CHR 0xD1, CHR 0x8E,
        CHR 0xD1, CHR 0x87, CHR 0xD0, CHR 0xB5, CHR 0xD0, CHR 0xB2, CHR 0xD0, CHR 0xBE,
        CHR 0xD0, CHR 0xB5] @ '' '' @ [CHR 0xD0, CHR 0xB4, CHR 0xD0, CHR 0xB5, CHR 0xD0,
        CHR 0xB9, CHR 0xD1, CHR 0x81, CHR 0xD1, CHR 0x82, CHR 0xD0, CHR 0xB2, CHR 0xD0,
        CHR 0xB8, CHR 0xD0, CHR 0xB5]),
      (''entity_merged'', [CHR 0xD0, CHR 0x92, CHR 0xD1, CHR 0x8B, CHR 0xD0, CHR 0xBF,
        CHR 0xD0, CHR 0xBE, CHR 0xD0, CHR 0xBB, CHR 0xD0, CHR 0xBD, CHR 0xD0, CHR 0xB5,
        CHR 0xD0, CHR 0xBD, CHR 0xD0, CHR 0xBE] @ '' '' @ [CHR 0xD0, CHR 0xBE, CHR 0xD0,
        CHR 0xB1, CHR 0xD1, CHR 0x8A, CHR 0xD0, CHR 0xB5, CHR 0xD0, CHR 0xB4, CHR 0xD0,
        CHR 0xB8, CHR 0xD0, CHR 0xBD, CHR 0xD0, CHR 0xB5, CHR 0xD0, CHR 0xBD, CHR 0xD0,
        CHR 0xB8, CHR 0xD0, CHR 0xB5])
     ]"

definition format_date :: "datetime \<Rightarrow> string" where
  \<comment> \<open>\<open>strftime("%d.%m.%Y")\<close>\<close>
  "format_date date = pad2 (day date) @ ''.'' @ pad2 (month date) @ ''.'' @ decimal (year date)"

subsection \<open>strptime\<close>

text \<open>
  \<open>datetime.strptime(s, "%Y-%m-%dT%H:%M:%SZ")\<close> compiles the format into a regular
  expression, one group of ordered alternatives per directive, and matches it ignoring
  case:
  \<^item> \<open>%Y\<close> is \<open>\d\d\d\d\<close>;
  \<^item> \<open>%m\<close> is \<open>1[0-2]|0[1-9]|[1-9]\<close>;
  \<^item> \<open>%d\<close> is \<open>3[0-1]|[1-2]\d|0[1-9]|[1-9]| [1-9]\<close>;
  \<^item> \<open>%H\<close> is \<open>2[0-3]|[0-1]\d|\d\<close>;
  \<^item> \<open>%M\<close> is \<open>[0-5]\d|\d\<close>;
  \<^item> \<open>%S\<close> is \<open>6[0-1]|[0-5]\d|\d\<close>.
  Each group is followed by a literal that is no digit, so an alternative of two
  characters and one of a single character never both lead to a match, and taking the
  first alternative that matches is what the regular expression does. A string that does
  not match, or has text left after the match, raises \<open>ValueError\<close>; so does a match
  whose fields are no date and time (\<open>datetime\<close> refuses them). Only the ASCII digits
  count as digits here.
\<close>

definition in_range :: "char \<Rightarrow> char \<Rightarrow> char \<Rightarrow> bool" where
  "in_range c lo hi \<longleftrightarrow> (of_char lo :: nat) \<le> of_char c \<and> (of_char c :: nat) \<le> of_char hi"

definition two_digits :: "char \<Rightarrow> char \<Rightarrow> nat" where
  "two_digits a b = digit_val a * 10 + digit_val b"

fun re_m :: "string \<Rightarrow> (nat \<times> string) option" where
  "re_m (a # b # rest) =
     (if a = CHR ''1'' \<and> in_range b (CHR ''0'') (CHR ''2'') then Some (two_digits a b, rest)
      else if a = CHR ''0'' \<and> in_range b (CHR ''1'') (CHR ''9'') then Some (two_digits a b, rest)
      else if in_range a (CHR ''1'') (CHR ''9'') then Some (digit_val a, b # rest)
      else None)"
| "re_m [a] = (if in_range a (CHR ''1'') (CHR ''9'') then Some (digit_val a, []) else None)"
| "re_m [] = None"

fun re_d :: "string \<Rightarrow> (nat \<times> string) option" where
  "re_d (a # b # rest) =
     (if a = CHR ''3'' \<and> in_range b (CHR ''0'') (CHR ''1'') then Some (two_digits a b, rest)
      else if in_range a (CHR ''1'') (CHR ''2'') \<and> is_digit b then Some (two_digits a b, rest)
      else if a = CHR ''0'' \<and> in_range b (CHR ''1'') (CHR ''9'') then Some (two_digits a b, rest)
      else if in_range a (CHR ''1'') (CHR ''9'') then Some (digit_val a, b # rest)
      else if a = CHR '' '' \<and> in_range b (CHR ''1'') (CHR ''9'') then Some (digit_val b, rest)
      else None)"
| "re_d [a] = (if in_range a (CHR ''1'') (CHR ''9'') then Some (digit_val a, []) else None)"
| "re_d [] = None"

fun re_H :: "string \<Rightarrow> (nat \<times> string) option" where
  "re_H (a # b # rest) =
     (if a = CHR ''2'' \<and> in_range b (CHR ''0'') (CHR ''3'') then Some (two_digits a b, rest)
      else if in_range a (CHR ''0'') (CHR ''1'') \<and> is_digit b then Some (two_digits a b, rest)
      else if is_digit a then Some (digit_val a, b # rest)
      else None)"
| "re_H [a] = (if is_digit a then Some (digit_val a, []) else None)"
| "re_H [] = None"

fun re_M :: "string \<Rightarrow> (nat \<times> string) option" where
  "re_M (a # b # rest) =
     (if in_range a (CHR ''0'') (CHR ''5'') \<and> is_digit b then Some (two_digits a b, rest)
      else if is_digit a then Some (digit_val a, b # rest)
      else None)"
| "re_M [a] = (if is_digit a then Some (digit_val a, []) else None)"
| "re_M [] = None"

fun re_S :: "string \<Rightarrow> (nat \<times> string) option" where
  "re_S (a # b # rest) =
     (if a = CHR ''6'' \<and> in_range b (CHR ''0'') (CHR ''1'') then Some (two_digits a b, rest)
      else if in_range a (CHR ''0'') (CHR ''5'') \<and> is_digit b then Some (two_digits a b, rest)
      else if is_digit a then Some (digit_val a, b # rest)
      else None)"
| "re_S [a] = (if is_digit a then Some (digit_val a, []) else None)"
| "re_S [] = None"

definition expect_nocase :: "char \<Rightarrow> char \<Rightarrow> string \<Rightarrow> string option" where
  "expect_nocase upper lower s =
     (case s of [] \<Rightarrow> None | c # rest \<Rightarrow> if c = upper \<or> c = lower then Some rest else None)"

definition strptime_match :: "string \<Rightarrow> datetime option" where
  "strptime_match s = do {
     (Y, s1) \<leftarrow> take_digits 4 s;
     s2 \<leftarrow> expect_char (CHR ''-'') s1;
     (m, s3) \<leftarrow> re_m s2;
     s4 \<leftarrow> expect_char (CHR ''-'') s3;
     (d, s5) \<leftarrow> re_d s4;
     s6 \<leftarrow> expect_nocase (CHR ''T'') (CHR ''t'') s5;
     (H, s7) \<leftarrow> re_H s6;
     s8 \<leftarrow> expect_char (CHR '':'') s7;
     (M, s9) \<leftarrow> re_M s8;
     s10 \<leftarrow> expect_char (CHR '':'') s9;
     (S, s11) \<leftarrow> re_S s10;
     s12 \<leftarrow> expect_nocase (CHR ''Z'') (CHR ''z'') s11;
     (if s12 = []
      then Some \<lparr>year = Y, month = m, day = d, hour = H, minute = M, second = S\<rparr>
      else None)
   }"

definition strptime :: "string \<Rightarrow> error + datetime" where
  "strptime s =
     (case strptime_match s of
        None \<Rightarrow> Inl ValueError
      | Some dt \<Rightarrow>
          if valid_datetime dt then Inr dt else Inl ValueError)"

definition format_time :: "string \<Rightarrow> string" where
  "format_time timestamp_str =
     (case strptime timestamp_str of
        Inr dt \<Rightarrow> pad2 (hour dt) @ '':'' @ pad2 (minute dt)
      | Inl e \<Rightarrow> timestamp_str)"

definition get_event_name :: "string \<Rightarrow> string" where
  "get_event_name event_type =
     (case map_of EVENT_TYPE_NAMES event_type of None \<Rightarrow> event_type | Some name \<Rightarrow> name)"

subsection \<open>prepare\_report\_data\<close>

text \<open>
  A cell of a report row is a string or an integer. The label of the placeholder row is
  the Russian phrase for "no events" (code points 41D 435 442, a space, 441 43E 431 44B
  442 438 439).
\<close>

datatype cell = CellStr string | CellInt int

definition no_events_label :: string where
  "no_events_label =
     [CHR 0xD0, CHR 0x9D, CHR 0xD0, CHR 0xB5, CHR 0xD1, CHR 0x82] @ '' '' @ [CHR 0xD1,
       CHR 0x81, CHR 0xD0, CHR 0xBE, CHR 0xD0, CHR 0xB1, CHR 0xD1, CHR 0x8B, CHR 0xD1,
       CHR 0x82, CHR 0xD0, CHR 0xB8, CHR 0xD0, CHR 0xB9]"

text \<open>The loop over \<open>enumerate(top_events)\<close>, appending one row per entry.\<close>

fun report_rows_loop ::
  "string \<Rightarrow> (string \<times> int) option \<Rightarrow> nat \<Rightarrow> (string \<times> int) list \<Rightarrow> cell list list
     \<Rightarrow> cell list list" where
  "report_rows_loop date_str max_latency i [] rows = rows"
| "report_rows_loop date_str max_latency i ((event_type, count) # top_events) rows =
     (let event_name = get_event_name event_type in
      case (if i = 0 then max_latency else None) of
        Some (peak_time, latency_ms) \<Rightarrow>
          report_rows_loop date_str max_latency (i + 1) top_events
            (rows @ [[CellStr date_str, CellStr event_name, CellInt count,
                      CellInt latency_ms, CellStr (format_time peak_time)]])
      | None \<Rightarrow>
          report_rows_loop date_str max_latency (i + 1) top_events
            (rows @ [[CellStr date_str, CellStr event_name, CellInt count,
                      CellStr [], CellStr []]]))"

definition prepare_report_data ::
  "datetime \<Rightarrow> (string \<times> int) list \<Rightarrow> (string \<times> int) option \<Rightarrow> cell list list" where
  "prepare_report_data report_date top_events max_latency =
     (let date_str = format_date report_date in
      if top_events = []
      then (case max_latency of
              Some (peak_time, latency_ms) \<Rightarrow>
                [[CellStr date_str, CellStr no_events_label, CellInt 0,
                  CellInt latency_ms, CellStr (format_time peak_time)]]
            | None \<Rightarrow>
                [[CellStr date_str, CellStr no_events_label, CellInt 0, CellStr [], CellStr []]])
      else report_rows_loop date_str max_latency 0 top_events [])"

section \<open>Properties of the event processor\<close>

lemma filter_automated_loop_eq:
  "filter_automated_loop events user_ids acc =
     acc @ filter (\<lambda>e. case created_by e of None \<Rightarrow> True | Some u \<Rightarrow> u \<notin> set user_ids) events"
  by (induction events arbitrary: acc) simp_all


lemma filter_automated_events_eq:
  "filter_automated_events events user_ids =
     filter (\<lambda>e. case created_by e of None \<Rightarrow> True | Some u \<Rightarrow> u \<notin> set user_ids) events"
  by (simp add: filter_automated_events_def filter_automated_loop_eq)

text \<open>
  Claim C4. For every list of events and every list of user ids,
  \<open>filter_automated_events\<close> returns exactly the events whose \<open>created_by\<close> is
  absent or null, or is no member of the user ids, in their input order: the result is
  the input filtered by that test, so nothing is duplicated and nothing else is dropped.
\<close>

theorem filter_automated_events_exact:
  "filter_automated_events E U =
     filter (\<lambda>e. created_by e = None \<or> (\<exists>u. created_by e = Some u \<and> u \<notin> set U)) E
   \<and> subseq (filter_automated_events E U) E"
proof -
  have same: "(\<lambda>e. case created_by e of None \<Rightarrow> True | Some u \<Rightarrow> u \<notin> set U) =
        (\<lambda>e. created_by e = None \<or> (\<exists>u. created_by e = Some u \<and> u \<notin> set U))"
    by (rule ext) (simp split: option.split)
  show ?thesis
    unfolding filter_automated_events_eq same by simp
qed

theorem filter_automated_events_exact_witness:
  "filter_automated_events
     [\<lparr>created_by = Some 7, etype = Some ''lead_added'', other_fields = []\<rparr>,
      \<lparr>created_by = None, etype = Some ''task_added'', other_fields = []\<rparr>,
      \<lparr>created_by = Some 9, etype = None, other_fields = []\<rparr>] [7, 8]
   = [\<lparr>created_by = None, etype = Some ''task_added'', other_fields = []\<rparr>,
      \<lparr>created_by = Some 9, etype = None, other_fields = []\<rparr>]"
  using filter_automated_events_exact
    [of "[\<lparr>created_by = Some 7, etype = Some ''lead_added'', other_fields = []\<rparr>,
      \<lparr>created_by = None, etype = Some ''task_added'', other_fields = []\<rparr>,
      \<lparr>created_by = Some 9, etype = None, other_fields = []\<rparr>]" "[7, 8]"]
  by simp

lemma sum_counter_add: "sum_list (map snd (counter_add k m)) = sum_list (map snd m) + 1"
  by (induction k m rule: counter_add.induct) auto

lemma keys_counter_add: "fst ` set (counter_add k m) = insert k (fst ` set m)"
  by (induction k m rule: counter_add.induct) auto

lemma distinct_counter_add:
  "distinct (map fst m) \<Longrightarrow> distinct (map fst (counter_add k m))"
proof (induction k m rule: counter_add.induct)
  case (1 k)
  then show ?case by simp
next
  case (2 k k' n rest)
  then show ?case using keys_counter_add [of k rest] by auto
qed

lemma map_of_counter_add:
  "map_of (counter_add k m) t =
     (if t = k then Some (case map_of m k of None \<Rightarrow> 1 | Some n \<Rightarrow> n + 1) else map_of m t)"
  by (induction k m rule: counter_add.induct) auto

lemma sum_fold_counter_add:
  "sum_list (map snd (fold counter_add xs m)) = sum_list (map snd m) + int (length xs)"
  by (induction xs arbitrary: m) (simp_all add: sum_counter_add)

lemma distinct_fold_counter_add:
  "distinct (map fst m) \<Longrightarrow> distinct (map fst (fold counter_add xs m))"
  by (induction xs arbitrary: m) (simp_all add: distinct_counter_add)

lemma map_of_fold_counter_add:
  "map_of (fold counter_add xs m) t =
     (case map_of m t of
        None \<Rightarrow> if count_list xs t = 0 then None else Some (int (count_list xs t))
      | Some n \<Rightarrow> Some (n + int (count_list xs t)))"
  by (induction xs arbitrary: m) (auto simp: map_of_counter_add split: option.splits)

lemma count_list_map_filter:
  "count_list (map f xs) t = length (filter (\<lambda>x. f x = t) xs)"
  by (induction xs) auto

text \<open>
  Claim C5. For every list of events, the counts of \<open>count_event_types\<close> add up to
  the number of events, every type has one entry, and the entry of a label \<open>t\<close> counts
  the events of type \<open>t\<close> together with, for the label \<open>unknown\<close>, the events that
  have no type.
\<close>

theorem count_event_types_total:
  "sum_list (map snd (count_event_types E)) = int (length E)
   \<and> distinct (map fst (count_event_types E))
   \<and> map_of (count_event_types E) t =
       (let n = length (filter (\<lambda>e. etype e = Some t \<or> (etype e = None \<and> t = ''unknown'')) E)
        in if n = 0 then None else Some (int n))"
proof -
  let ?label = "\<lambda>event. case etype event of None \<Rightarrow> ''unknown'' | Some t \<Rightarrow> t"
  have same: "(\<lambda>e. ?label e = t) = (\<lambda>e. etype e = Some t \<or> (etype e = None \<and> t = ''unknown''))"
    by (rule ext) (auto split: option.split)
  have 1: "sum_list (map snd (count_event_types E)) = int (length E)"
    by (simp add: count_event_types_def Counter_def sum_fold_counter_add)
  have 2: "distinct (map fst (count_event_types E))"
    by (simp add: count_event_types_def Counter_def distinct_fold_counter_add)
  have "map_of (count_event_types E) t =
      (if count_list (map ?label E) t = 0 then None else Some (int (count_list (map ?label E) t)))"
    by (simp add: count_event_types_def Counter_def map_of_fold_counter_add)
  then have 3: "map_of (count_event_types E) t =
       (let n = length (filter (\<lambda>e. etype e = Some t \<or> (etype e = None \<and> t = ''unknown'')) E)
        in if n = 0 then None else Some (int n))"
    unfolding count_list_map_filter same by (simp add: Let_def)
  from 1 2 3 show ?thesis by blast
qed

theorem count_event_types_total_witness:
  "count_event_types
     [\<lparr>created_by = None, etype = Some ''lead_added'', other_fields = []\<rparr>,
      \<lparr>created_by = None, etype = None, other_fields = []\<rparr>,
      \<lparr>created_by = Some 3, etype = Some ''lead_added'', other_fields = []\<rparr>]
   = [(''lead_added'', 2), (''unknown'', 1)]
   \<and> map_of (count_event_types
     [\<lparr>created_by = None, etype = Some ''lead_added'', other_fields = []\<rparr>,
      \<lparr>created_by = None, etype = None, other_fields = []\<rparr>,
      \<lparr>created_by = Some 3, etype = Some ''lead_added'', other_fields = []\<rparr>]) ''unknown'' = Some 1"
  using count_event_types_total
    [of "[\<lparr>created_by = None, etype = Some ''lead_added'', other_fields = []\<rparr>,
      \<lparr>created_by = None, etype = None, other_fields = []\<rparr>,
      \<lparr>created_by = Some 3, etype = Some ''lead_added'', other_fields = []\<rparr>]" "''unknown''"]
  by (simp add: count_event_types_def Counter_def)

lemma length_sorted_reverse: "length (sorted_reverse f xs) = length xs"
  by (simp add: sorted_reverse_def)

lemma set_sorted_reverse: "set (sorted_reverse f xs) = set xs"
  by (simp add: sorted_reverse_def)

lemma distinct_sorted_reverse: "distinct (sorted_reverse f xs) = distinct xs"
  by (simp add: sorted_reverse_def)

lemma sorted_reverse_descending:
  "sorted_wrt (\<lambda>a b. f a \<ge> f b) (sorted_reverse f xs)"
proof -
  have "sorted (map f (sort_key f (rev xs)))" by simp
  then have "sorted_wrt (\<lambda>a b. f a \<le> f b) (sort_key f (rev xs))"
    by (simp add: sorted_map)
  then show ?thesis
    by (simp add: sorted_reverse_def sorted_wrt_rev)
qed

lemma length_slice_to: "0 \<le> n \<Longrightarrow> length (slice_to xs n) = min (nat n) (length xs)"
  by (simp add: slice_to_def min.commute)

lemma slice_to_is_take: "0 \<le> n \<Longrightarrow> slice_to xs n = take (nat n) xs"
  by (simp add: slice_to_def)

text \<open>
  Claim C3, amended. The limit in force is the argument when it is a nonzero integer and
  the processor's \<open>top_limit\<close> when the argument is \<open>None\<close> or 0. For every count
  mapping and every limit in force that is not negative, \<open>get_top_events\<close> returns
  exactly the minimum of that limit and the number of distinct types, ordered by count
  descending, each pair an entry of the mapping and no type twice.
\<close>

theorem get_top_events_length_order:
  assumes "distinct (map fst counts)"
    and "eff = (case limit of None \<Rightarrow> top_limit | Some k \<Rightarrow> if k = 0 then top_limit else k)"
    and "0 \<le> eff"
  shows "length (get_top_events top_limit counts limit) = min (nat eff) (card (fst ` set counts))
     \<and> sorted_wrt (\<lambda>a b. snd a \<ge> snd b) (get_top_events top_limit counts limit)
     \<and> set (get_top_events top_limit counts limit) \<subseteq> set counts
     \<and> distinct (map fst (get_top_events top_limit counts limit))"
proof -
  have eff: "int_or limit top_limit = eff"
    using assms(2) by (simp add: int_or_def)
  have res: "get_top_events top_limit counts limit = take (nat eff) (sorted_reverse snd counts)"
    using assms(3) by (simp add: get_top_events_def eff slice_to_is_take)
  have card: "card (fst ` set counts) = length counts"
    using assms(1) by (metis distinct_card length_map set_map)
  have 1: "length (get_top_events top_limit counts limit) = min (nat eff) (card (fst ` set counts))"
    by (simp add: res card length_sorted_reverse min.commute)
  have 2: "sorted_wrt (\<lambda>a b. snd a \<ge> snd b) (get_top_events top_limit counts limit)"
    unfolding res by (rule sorted_wrt_take) (rule sorted_reverse_descending)
  have 3: "set (get_top_events top_limit counts limit) \<subseteq> set counts"
    unfolding res using set_take_subset [of "nat eff" "sorted_reverse snd counts"]
    by (simp add: set_sorted_reverse)
  have "distinct (map fst (sorted_reverse snd counts))"
    using assms(1) by (simp add: sorted_reverse_def rev_map [symmetric] distinct_map inj_on_def)
  then have 4: "distinct (map fst (get_top_events top_limit counts limit))"
    unfolding res by (simp add: take_map [symmetric])
  from 1 2 3 4 show ?thesis by blast
qed


theorem get_top_events_length_order_witness:
  "get_top_events 5 [(''a'', 3), (''b'', 7), (''c'', 3), (''d'', 9)] (Some 3)
     = [(''d'', 9), (''b'', 7), (''a'', 3)]
   \<and> length (get_top_events 5 [(''a'', 3), (''b'', 7), (''c'', 3), (''d'', 9)] (Some 3))
     = min (nat 3) (card (fst ` set [(''a'', 3::int), (''b'', 7), (''c'', 3), (''d'', 9)]))"
proof -
  have d: "distinct (map fst [(''a'', 3::int), (''b'', 7), (''c'', 3), (''d'', 9)])" by simp
  have e: "(3::int) = (case Some 3 of None \<Rightarrow> 5 | Some k \<Rightarrow> if k = 0 then 5 else k)" by simp
  have v: "get_top_events 5 [(''a'', 3), (''b'', 7), (''c'', 3), (''d'', 9)] (Some 3)
     = [(''d'', 9), (''b'', 7), (''a'', 3)]"
    by (simp add: get_top_events_def int_or_def slice_to_def sorted_reverse_def)
  show ?thesis
    using get_top_events_length_order [OF d e] v by simp
qed

text \<open>
  With the limit 0 and one counted type, the call returns that one pair (the processor's
  limit 5 is in force), not the 0 pairs of \<open>min(0, 1)\<close>.
\<close>

theorem get_top_events_zero_limit_counterexample:
  "length (get_top_events 5 [(''lead_added'', 3)] (Some 0))
     \<noteq> min (nat 0) (card (fst ` set [(''lead_added'', 3::int)]))"
  by (simp add: get_top_events_def int_or_def slice_to_def sorted_reverse_def)

section \<open>Properties of the HTTP client\<close>

lemma get_access_token_update [simp]:
  "get_access_token (c\<lparr>net := s\<rparr>) = get_access_token c"
  "get_access_token (c\<lparr>requests_sent := n\<rparr>) = get_access_token c"
  "get_access_token (c\<lparr>sleeps := w\<rparr>) = get_access_token c"
  "get_access_token (c\<lparr>client_open := b\<rparr>) = get_access_token c"
  by (simp_all add: get_access_token_def)

lemma get_headers_update [simp]:
  "get_headers (c\<lparr>net := s\<rparr>) = get_headers c"
  "get_headers (c\<lparr>requests_sent := n\<rparr>) = get_headers c"
  "get_headers (c\<lparr>sleeps := w\<rparr>) = get_headers c"
  "get_headers (c\<lparr>client_open := b\<rparr>) = get_headers c"
  by (simp_all add: get_headers_def split: option.split)

lemma get_attempt_success:
  assumes "client_open c" and "get_headers c = Inr hs"
    and "transport \<lparr>req_url = base_url c @ endpoint, req_headers = hs, req_params = params\<rparr> (net c)
           = (Responded r, s')"
    and "200 \<le> status_code r" and "status_code r \<le> 299" and "json_body r = Some d"
    and "embedded_len d = Len n"
  shows "get_attempt transport embedded_len endpoint params c =
           (Inr d, c\<lparr>net := s', requests_sent := requests_sent c + 1\<rparr>)"
  using assms by (auto simp: get_attempt_def raise_for_status_def Let_def)

lemma get_attempt_status_error:
  assumes "client_open c" and "get_headers c = Inr hs"
    and "transport \<lparr>req_url = base_url c @ endpoint, req_headers = hs, req_params = params\<rparr> (net c)
           = (Responded r, s')"
    and "\<not> (200 \<le> status_code r \<and> status_code r \<le> 299)"
  shows "get_attempt transport embedded_len endpoint params c =
           (Inl (HTTPStatusError (status_code r)),
            c\<lparr>net := s', requests_sent := requests_sent c + 1\<rparr>)"
  using assms by (auto simp: get_attempt_def raise_for_status_def Let_def)

lemma get_attempt_network_failure:
  assumes "client_open c" and "get_headers c = Inr hs"
    and "transport \<lparr>req_url = base_url c @ endpoint, req_headers = hs, req_params = params\<rparr> (net c)
           = (NetworkFailure msg, s')"
  shows "get_attempt transport embedded_len endpoint params c =
           (Inl (RequestError msg), c\<lparr>net := s', requests_sent := requests_sent c + 1\<rparr>)"
  using assms by (auto simp: get_attempt_def)

lemma get_attempt_not_open:
  "\<not> client_open c \<Longrightarrow>
   get_attempt transport embedded_len endpoint params c = (Inl (RuntimeError client_not_initialised), c)"
  by (simp add: get_attempt_def)

text \<open>
  A failure of the kind the documentation calls temporary (status 429 or 5xx, or a
  network failure) makes the attempt raise an error that the decorator retries on.
\<close>

lemma get_attempt_transient:
  assumes "client_open c" and "get_headers c = Inr hs"
    and "transport \<lparr>req_url = base_url c @ endpoint, req_headers = hs, req_params = params\<rparr> (net c)
           = (out, s')"
    and "(\<exists>msg. out = NetworkFailure msg) \<or>
         (\<exists>r. out = Responded r \<and> (status_code r = 429 \<or> 500 \<le> status_code r \<and> status_code r \<le> 599))"
  shows "\<exists>e. get_attempt transport embedded_len endpoint params c =
               (Inl e, c\<lparr>net := s', requests_sent := requests_sent c + 1\<rparr>)
             \<and> retry_if_exception_type e"
proof -
  from assms(4) consider (net) msg where "out = NetworkFailure msg"
    | (status) r where "out = Responded r"
        "status_code r = 429 \<or> 500 \<le> status_code r \<and> status_code r \<le> 599"
    by blast
  then show ?thesis
  proof cases
    case net
    have "get_attempt transport embedded_len endpoint params c =
            (Inl (RequestError msg), c\<lparr>net := s', requests_sent := requests_sent c + 1\<rparr>)"
      by (rule get_attempt_network_failure [where transport = transport and embedded_len = embedded_len and endpoint = endpoint and params = params, OF assms(1,2) assms(3) [unfolded net]])
    then show ?thesis by (simp add: retry_if_exception_type_def)
  next
    case status
    then have "\<not> (200 \<le> status_code r \<and> status_code r \<le> 299)" by auto
    then have "get_attempt transport embedded_len endpoint params c =
            (Inl (HTTPStatusError (status_code r)),
             c\<lparr>net := s', requests_sent := requests_sent c + 1\<rparr>)"
      by (rule get_attempt_status_error [where transport = transport and embedded_len = embedded_len and endpoint = endpoint and params = params, OF assms(1,2) assms(3) [unfolded status(1)]])
    then show ?thesis by (simp add: retry_if_exception_type_def)
  qed
qed

lemma get_retrying_returns:
  "get_attempt transport embedded_len endpoint params c = (Inr d, c') \<Longrightarrow>
   get_retrying transport embedded_len endpoint params n c = (Inr d, c', n)"
  by (simp add: get_retrying.simps [of _ _ _ _ n])

lemma get_retrying_again:
  "get_attempt transport embedded_len endpoint params c = (Inl e, c') \<Longrightarrow> retry_if_exception_type e \<Longrightarrow>
   n < 3 \<Longrightarrow>
   get_retrying transport embedded_len endpoint params n c =
     get_retrying transport embedded_len endpoint params (n + 1) (c'\<lparr>sleeps := sleeps c' @ [wait_exponential n]\<rparr>)"
  by (simp add: get_retrying.simps [of _ _ _ _ n] stop_after_attempt_def)

lemma get_retrying_gives_up:
  "get_attempt transport embedded_len endpoint params c = (Inl e, c') \<Longrightarrow>
   \<not> retry_if_exception_type e \<or> 3 \<le> n \<Longrightarrow>
   get_retrying transport embedded_len endpoint params n c = (Inl e, c', n)"
  by (auto simp: get_retrying.simps [of _ _ _ _ n] stop_after_attempt_def)

lemma get_attempt_requests:
  "requests_sent (snd (get_attempt transport embedded_len endpoint params c)) \<le> requests_sent c + 1"
  by (auto simp: get_attempt_def Let_def
        split: sum.splits prod.splits outcome.splits option.splits len_result.splits)

lemma get_retrying_attempts:
  "attempt_number \<le> 3 \<Longrightarrow>
   attempt_number \<le> snd (snd (get_retrying transport embedded_len endpoint params attempt_number c)) \<and>
   snd (snd (get_retrying transport embedded_len endpoint params attempt_number c)) \<le> 3"
proof (induction transport embedded_len endpoint params attempt_number c rule: get_retrying.induct)
  case (1 transport embedded_len endpoint params attempt_number c)
  show ?case
  proof (cases "get_attempt transport embedded_len endpoint params c")
    case (Pair r c')
    show ?thesis
    proof (cases r)
      case (Inr d)
      with Pair 1(2) show ?thesis by (simp add: get_retrying.simps [of _ _ _ _ attempt_number])
    next
      case (Inl e)
      show ?thesis
      proof (cases "retry_if_exception_type e \<and> \<not> stop_after_attempt attempt_number")
        case True
        then have "attempt_number + 1 \<le> 3" by (simp add: stop_after_attempt_def)
        with 1(1) [OF Pair [symmetric] Inl] True Pair Inl
        show ?thesis
          by (auto simp: get_retrying.simps [of _ _ _ _ attempt_number])
      next
        case False
        with Pair Inl 1(2) show ?thesis
          by (auto simp: get_retrying.simps [of _ _ _ _ attempt_number])
      qed
    qed
  qed
qed


lemma get_attempts_bounds:
  "1 \<le> snd (snd (get transport embedded_len endpoint params c)) \<and>
   snd (snd (get transport embedded_len endpoint params c)) \<le> 3"
  using get_retrying_attempts [of 1 transport embedded_len endpoint params c] by (simp add: get_def)

text \<open>Every attempt calls the transport at most once, so the calls are bounded too.\<close>

lemma get_retrying_requests:
  "attempt_number \<le> 3 \<Longrightarrow>
   requests_sent (fst (snd (get_retrying transport embedded_len endpoint params attempt_number c)))
     + attempt_number \<le> requests_sent c + 4"
proof (induction transport embedded_len endpoint params attempt_number c rule: get_retrying.induct)
  case (1 transport embedded_len endpoint params attempt_number c)
  show ?case
  proof (cases "get_attempt transport embedded_len endpoint params c")
    case (Pair r c')
    have one: "requests_sent c' \<le> requests_sent c + 1"
      using get_attempt_requests [of transport embedded_len endpoint params c] Pair by simp
    show ?thesis
    proof (cases r)
      case (Inr d)
      with Pair one 1(2) show ?thesis
        by (simp add: get_retrying.simps [of _ _ _ _ attempt_number])
    next
      case (Inl e)
      show ?thesis
      proof (cases "retry_if_exception_type e \<and> \<not> stop_after_attempt attempt_number")
        case True
        then have "attempt_number + 1 \<le> 3" by (simp add: stop_after_attempt_def)
        from 1(1) [OF Pair [symmetric] Inl _ _ this] True
        have "requests_sent (fst (snd (get_retrying transport embedded_len endpoint params
                 (attempt_number + 1) (c'\<lparr>sleeps := sleeps c' @ [wait_exponential attempt_number]\<rparr>))))
               + (attempt_number + 1) \<le> requests_sent c' + 4"
          by simp
        with one True Pair Inl show ?thesis
          by (simp add: get_retrying.simps [of _ _ _ _ attempt_number])
      next
        case False
        with Pair Inl one 1(2) show ?thesis
          by (auto simp: get_retrying.simps [of _ _ _ _ attempt_number])
      qed
    qed
  qed
qed

lemma get_requests_bound:
  "requests_sent (fst (snd (get transport embedded_len endpoint params c))) \<le> requests_sent c + 3"
  using get_retrying_requests [of 1 transport embedded_len endpoint params c] by (simp add: get_def)

text \<open>
  Two transient failures (status 429 or 5xx, or a network failure) and then the third
  call of the transport.
\<close>

lemma get_after_two_transient_failures:
  fixes transport :: "('s, 'b) transport"
  assumes ready: "client_open c" "get_headers c = Inr hs"
    and rq: "rq = \<lparr>req_url = base_url c @ endpoint, req_headers = hs, req_params = params\<rparr>"
    and t1: "transport rq (net c) = (o1, s1)"
    and t2: "transport rq s1 = (o2, s2)"
    and t3: "transport rq s2 = (o3, s3)"
    and f1: "(\<exists>msg. o1 = NetworkFailure msg) \<or>
         (\<exists>r. o1 = Responded r \<and> (status_code r = 429 \<or> 500 \<le> status_code r \<and> status_code r \<le> 599))"
    and f2: "(\<exists>msg. o2 = NetworkFailure msg) \<or>
         (\<exists>r. o2 = Responded r \<and> (status_code r = 429 \<or> 500 \<le> status_code r \<and> status_code r \<le> 599))"
    and after: "c3 = c\<lparr>net := s3, requests_sent := requests_sent c + 3, sleeps := sleeps c @ [2, 2]\<rparr>"
  shows "(\<forall>r d n. o3 = Responded r \<and> 200 \<le> status_code r \<and> status_code r \<le> 299 \<and>
                json_body r = Some d \<and> embedded_len d = Len n
        \<longrightarrow> get transport embedded_len endpoint params c = (Inr d, c3, 3)) \<and>
     ((\<exists>msg. o3 = NetworkFailure msg) \<or>
         (\<exists>r. o3 = Responded r \<and> (status_code r = 429 \<or> 500 \<le> status_code r \<and> status_code r \<le> 599))
        \<longrightarrow> get transport embedded_len endpoint params c =
              (Inl (case o3 of NetworkFailure msg \<Rightarrow> RequestError msg
                             | Responded r \<Rightarrow> HTTPStatusError (status_code r)), c3, 3))"
proof -
  define c1 where "c1 = c\<lparr>net := s1, requests_sent := requests_sent c + 1\<rparr>"
  define c1' where "c1' = c1\<lparr>sleeps := sleeps c1 @ [wait_exponential 1]\<rparr>"
  define c2 where "c2 = c1'\<lparr>net := s2, requests_sent := requests_sent c1' + 1\<rparr>"
  define c2' where "c2' = c2\<lparr>sleeps := sleeps c2 @ [wait_exponential 2]\<rparr>"
  have w: "wait_exponential 1 = 2" "wait_exponential (Suc 0) = 2" "wait_exponential 2 = 2"
    by (simp_all add: wait_exponential_def)
  have ready1: "client_open c1'" "get_headers c1' = Inr hs" "base_url c1' = base_url c" "net c1' = s1"
    using ready by (simp_all add: c1'_def c1_def)
  have ready2: "client_open c2'" "get_headers c2' = Inr hs" "base_url c2' = base_url c" "net c2' = s2"
    using ready by (simp_all add: c2'_def c2_def c1'_def c1_def)
  have c3: "c2'\<lparr>net := s3, requests_sent := requests_sent c2' + 1\<rparr> = c3"
    by (simp add: after c2'_def c2_def c1'_def c1_def w)
  obtain e1 where a1: "get_attempt transport embedded_len endpoint params c = (Inl e1, c1)"
      and r1: "retry_if_exception_type e1"
    using get_attempt_transient [where transport = transport and embedded_len = embedded_len and endpoint = endpoint and params = params, OF ready t1 [unfolded rq] f1] unfolding c1_def by blast
  have t2': "transport \<lparr>req_url = base_url c1' @ endpoint, req_headers = hs, req_params = params\<rparr> (net c1')
               = (o2, s2)"
    using t2 by (simp add: rq ready1)
  obtain e2 where a2: "get_attempt transport embedded_len endpoint params c1' = (Inl e2, c2)"
      and r2: "retry_if_exception_type e2"
    using get_attempt_transient [where transport = transport and embedded_len = embedded_len and endpoint = endpoint and params = params, OF ready1(1,2) t2' f2] unfolding c2_def by blast
  have t3': "transport \<lparr>req_url = base_url c2' @ endpoint, req_headers = hs, req_params = params\<rparr> (net c2')
               = (o3, s3)"
    using t3 by (simp add: rq ready2)
  have step: "get transport embedded_len endpoint params c = get_retrying transport embedded_len endpoint params 3 c2'"
  proof -
    have lt: "(1::nat) < 3" "(2::nat) < 3" by simp_all
    have n: "(1::nat) + 1 = 2" "(2::nat) + 1 = 3" by simp_all
    have "get_retrying transport embedded_len endpoint params 1 c = get_retrying transport embedded_len endpoint params 2 c1'"
      using get_retrying_again [OF a1 r1 lt(1)] unfolding n c1'_def .
    also have "\<dots> = get_retrying transport embedded_len endpoint params 3 c2'"
      using get_retrying_again [OF a2 r2 lt(2)] unfolding n c2'_def .
    finally show ?thesis unfolding get_def .
  qed
  have succ: "get transport embedded_len endpoint params c = (Inr d, c3, 3)"
    if "o3 = Responded r" "200 \<le> status_code r" "status_code r \<le> 299" "json_body r = Some d"
      "embedded_len d = Len n"
    for r d n
  proof -
    have "get_attempt transport embedded_len endpoint params c2' = (Inr d, c3)"
      using get_attempt_success [where transport = transport and embedded_len = embedded_len and endpoint = endpoint and params = params, OF ready2(1,2) t3' [unfolded that(1)] that(2,3,4,5)] c3 by simp
    then show ?thesis
      unfolding step by (rule get_retrying_returns)
  qed
  have fail: "get transport embedded_len endpoint params c =
              (Inl (case o3 of NetworkFailure msg \<Rightarrow> RequestError msg
                             | Responded r \<Rightarrow> HTTPStatusError (status_code r)), c3, 3)"
    if f3: "(\<exists>msg. o3 = NetworkFailure msg) \<or>
      (\<exists>r. o3 = Responded r \<and> (status_code r = 429 \<or> 500 \<le> status_code r \<and> status_code r \<le> 599))"
  proof -
    from f3 consider (net) msg where "o3 = NetworkFailure msg"
      | (status) r where "o3 = Responded r"
          "status_code r = 429 \<or> 500 \<le> status_code r \<and> status_code r \<le> 599"
      by blast
    then have "get_attempt transport embedded_len endpoint params c2' =
        (Inl (case o3 of NetworkFailure msg \<Rightarrow> RequestError msg
                             | Responded r \<Rightarrow> HTTPStatusError (status_code r)), c3)"
    proof cases
      case net
      show ?thesis
        using get_attempt_network_failure [where transport = transport and embedded_len = embedded_len and endpoint = endpoint and params = params, OF ready2(1,2) t3' [unfolded net]] c3 net by simp
    next
      case status
      then have "\<not> (200 \<le> status_code r \<and> status_code r \<le> 299)" by auto
      then show ?thesis
        using get_attempt_status_error [where transport = transport and embedded_len = embedded_len and endpoint = endpoint and params = params, OF ready2(1,2) t3' [unfolded status(1)]] c3 status(1)
        by simp
    qed
    then show ?thesis
      unfolding step by (rule get_retrying_gives_up) simp
  qed
  from succ fail show ?thesis by blast
qed

text \<open>
  Claim C2. For every transport, the retried \<open>get\<close> makes at most 3 attempts and
  calls the transport at most 3 times. When the first two calls of the transport fail
  transiently (status 429 or 5xx, or a network failure) and the third succeeds (a
  success status with a JSON body that the log line accepts), the call returns that body
  after exactly 3 calls of the transport; when the third fails transiently too, the call
  fails after exactly 3 calls, with the error of the third call as it was raised. Both
  times the waits between the attempts are 2 and 2.
\<close>

theorem get_retry_three_attempts:
  fixes transport :: "('s, 'b) transport"
  shows
    "snd (snd (get transport embedded_len endpoint params c)) \<le> 3
     \<and> requests_sent (fst (snd (get transport embedded_len endpoint params c))) \<le> requests_sent c + 3
     \<and> (client_open c \<and> get_headers c = Inr hs
          \<and> rq = \<lparr>req_url = base_url c @ endpoint, req_headers = hs, req_params = params\<rparr>
          \<and> transport rq (net c) = (o1, s1)
          \<and> transport rq s1 = (o2, s2)
          \<and> transport rq s2 = (o3, s3)
          \<and> ((\<exists>msg. o1 = NetworkFailure msg) \<or>
         (\<exists>r. o1 = Responded r \<and> (status_code r = 429 \<or> 500 \<le> status_code r \<and> status_code r \<le> 599)))
          \<and> ((\<exists>msg. o2 = NetworkFailure msg) \<or>
         (\<exists>r. o2 = Responded r \<and> (status_code r = 429 \<or> 500 \<le> status_code r \<and> status_code r \<le> 599)))
          \<and> c3 = c\<lparr>net := s3, requests_sent := requests_sent c + 3, sleeps := sleeps c @ [2, 2]\<rparr>
        \<longrightarrow>
          (\<forall>r d n. o3 = Responded r \<and> 200 \<le> status_code r \<and> status_code r \<le> 299 \<and>
                    json_body r = Some d \<and> embedded_len d = Len n
             \<longrightarrow> get transport embedded_len endpoint params c = (Inr d, c3, 3))
          \<and> ((\<exists>msg. o3 = NetworkFailure msg) \<or>
         (\<exists>r. o3 = Responded r \<and> (status_code r = 429 \<or> 500 \<le> status_code r \<and> status_code r \<le> 599))
             \<longrightarrow> get transport embedded_len endpoint params c =
                   (Inl (case o3 of NetworkFailure msg \<Rightarrow> RequestError msg
                                  | Responded r \<Rightarrow> HTTPStatusError (status_code r)), c3, 3)))"
proof (intro conjI impI)
  show "snd (snd (get transport embedded_len endpoint params c)) \<le> 3"
    using get_attempts_bounds by blast
  show "requests_sent (fst (snd (get transport embedded_len endpoint params c))) \<le> requests_sent c + 3"
    by (rule get_requests_bound)
next
  assume h: "client_open c \<and> get_headers c = Inr hs
          \<and> rq = \<lparr>req_url = base_url c @ endpoint, req_headers = hs, req_params = params\<rparr>
          \<and> transport rq (net c) = (o1, s1)
          \<and> transport rq s1 = (o2, s2)
          \<and> transport rq s2 = (o3, s3)
          \<and> ((\<exists>msg. o1 = NetworkFailure msg) \<or>
         (\<exists>r. o1 = Responded r \<and> (status_code r = 429 \<or> 500 \<le> status_code r \<and> status_code r \<le> 599)))
          \<and> ((\<exists>msg. o2 = NetworkFailure msg) \<or>
         (\<exists>r. o2 = Responded r \<and> (status_code r = 429 \<or> 500 \<le> status_code r \<and> status_code r \<le> 599)))
          \<and> c3 = c\<lparr>net := s3, requests_sent := requests_sent c + 3, sleeps := sleeps c @ [2, 2]\<rparr>"
  then have scenario:
    "(\<forall>r d n. o3 = Responded r \<and> 200 \<le> status_code r \<and> status_code r \<le> 299 \<and>
                json_body r = Some d \<and> embedded_len d = Len n
        \<longrightarrow> get transport embedded_len endpoint params c = (Inr d, c3, 3)) \<and>
     ((\<exists>msg. o3 = NetworkFailure msg) \<or>
         (\<exists>r. o3 = Responded r \<and> (status_code r = 429 \<or> 500 \<le> status_code r \<and> status_code r \<le> 599))
        \<longrightarrow> get transport embedded_len endpoint params c =
              (Inl (case o3 of NetworkFailure msg \<Rightarrow> RequestError msg
                             | Responded r \<Rightarrow> HTTPStatusError (status_code r)), c3, 3))"
    by (intro get_after_two_transient_failures [where hs = hs and rq = rq and ?o1.0 = o1
          and ?s1.0 = s1 and ?o2.0 = o2 and ?s2.0 = s2 and ?s3.0 = s3]) blast+
  from scenario show "\<forall>r d n. o3 = Responded r \<and> 200 \<le> status_code r \<and> status_code r \<le> 299 \<and>
                    json_body r = Some d \<and> embedded_len d = Len n
             \<longrightarrow> get transport embedded_len endpoint params c = (Inr d, c3, 3)"
    by blast
  assume "(\<exists>msg. o3 = NetworkFailure msg) \<or>
         (\<exists>r. o3 = Responded r \<and> (status_code r = 429 \<or> 500 \<le> status_code r \<and> status_code r \<le> 599))"
  with scenario show "get transport embedded_len endpoint params c =
                   (Inl (case o3 of NetworkFailure msg \<Rightarrow> RequestError msg
                                  | Responded r \<Rightarrow> HTTPStatusError (status_code r)), c3, 3)"
    by blast
qed

theorem get_retry_three_attempts_witness:
  "get (\<lambda>rq s. if s < 2 then (Responded \<lparr>status_code = 503, json_body = None\<rparr>, s + 1)
                 else (Responded \<lparr>status_code = 200,
                         json_body = Some \<lparr>body_embedded = None, body_links = None\<rparr>\<rparr>, s + 1))
       api_embedded_len ''/api/v4/account'' None
       (aenter (AmoCRMHTTPClient_init ''https://example.amocrm.ru/'' (Some ''token'') (Inr None) (0::nat)))
   = (Inr \<lparr>body_embedded = None, body_links = None\<rparr>,
      \<lparr>base_url = ''https://example.amocrm.ru'', client_open = True,
       AMO_LONG_LIVE_TOKEN = Some ''token'', token_manager = Inr None, net = 3,
       requests_sent = 3, sleeps = [2, 2]\<rparr>, 3)
   \<and> get (\<lambda>rq s. (NetworkFailure ''connect timeout'' :: api_body outcome, s + 1))
       api_embedded_len ''/api/v4/account'' None
       (aenter (AmoCRMHTTPClient_init ''https://example.amocrm.ru/'' (Some ''token'') (Inr None) (0::nat)))
   = (Inl (RequestError ''connect timeout''),
      \<lparr>base_url = ''https://example.amocrm.ru'', client_open = True,
       AMO_LONG_LIVE_TOKEN = Some ''token'', token_manager = Inr None, net = 3,
       requests_sent = 3, sleeps = [2, 2]\<rparr>, 3)"
proof -
  let ?c = "aenter (AmoCRMHTTPClient_init ''https://example.amocrm.ru/'' (Some ''token'') (Inr None) (0::nat))"
  let ?hs = "[(''Authorization'', ''Bearer token''), (''Content-Type'', ''application/json'')]"
  let ?rq = "\<lparr>req_url = base_url ?c @ ''/api/v4/account'', req_headers = ?hs, req_params = None\<rparr>"
  let ?body = "\<lparr>body_embedded = None, body_links = None\<rparr>"
  let ?flaky = "\<lambda>(rq::request) s. if s < 2 then (Responded \<lparr>status_code = 503, json_body = None\<rparr>, s + 1)
                 else (Responded \<lparr>status_code = 200, json_body = Some ?body\<rparr>, s + (1::nat))"
  let ?down = "\<lambda>(rq::request) s. (NetworkFailure ''connect timeout'' :: api_body outcome, s + (1::nat))"
  let ?c3 = "?c\<lparr>net := 3, requests_sent := requests_sent ?c + 3, sleeps := sleeps ?c @ [2, 2]\<rparr>"
  have c3: "?c3 = \<lparr>base_url = ''https://example.amocrm.ru'', client_open = True,
       AMO_LONG_LIVE_TOKEN = Some ''token'', token_manager = Inr None, net = 3,
       requests_sent = 3, sleeps = [2, 2]\<rparr>"
    by (simp add: aenter_def AmoCRMHTTPClient_init_def rstrip_def)
  have ready: "client_open ?c" "get_headers ?c = Inr ?hs" "net ?c = 0"
    by (simp_all add: aenter_def AmoCRMHTTPClient_init_def get_headers_def)
  have len: "api_embedded_len ?body = Len 0"
    by (simp add: api_embedded_len_def)
  have a: "get ?flaky api_embedded_len ''/api/v4/account'' None ?c = (Inr ?body, ?c3, 3)"
    using get_retry_three_attempts [where transport = ?flaky and embedded_len = api_embedded_len
        and c = ?c and hs = ?hs
        and endpoint = "''/api/v4/account''" and params = None and rq = ?rq
        and ?o1.0 = "Responded \<lparr>status_code = 503, json_body = None\<rparr>" and ?s1.0 = 1
        and ?o2.0 = "Responded \<lparr>status_code = 503, json_body = None\<rparr>" and ?s2.0 = 2
        and ?o3.0 = "Responded \<lparr>status_code = 200, json_body = Some ?body\<rparr>" and ?s3.0 = 3
        and ?c3.0 = ?c3]
    by (simp add: ready len)
  have b: "get ?down api_embedded_len ''/api/v4/account'' None ?c =
             (Inl (RequestError ''connect timeout''), ?c3, 3)"
    using get_retry_three_attempts [where transport = ?down and embedded_len = api_embedded_len
        and c = ?c and hs = ?hs
        and endpoint = "''/api/v4/account''" and params = None and rq = ?rq
        and ?o1.0 = "NetworkFailure ''connect timeout''" and ?s1.0 = 1
        and ?o2.0 = "NetworkFailure ''connect timeout''" and ?s2.0 = 2
        and ?o3.0 = "NetworkFailure ''connect timeout''" and ?s3.0 = 3
        and ?c3.0 = ?c3]
    by (simp add: ready)
  from a b show ?thesis unfolding c3 by simp
qed

lemma get_persistent_status_error:
  fixes transport :: "('s, 'b) transport"
  assumes "client_open c" and "get_headers c = Inr hs"
    and "\<And>s. transport \<lparr>req_url = base_url c @ endpoint, req_headers = hs, req_params = params\<rparr> s
           = (Responded r, step s)"
    and "\<not> (200 \<le> status_code r \<and> status_code r \<le> 299)"
  shows "get transport embedded_len endpoint params c =
           (Inl (HTTPStatusError (status_code r)),
            c\<lparr>net := step (step (step (net c))), requests_sent := requests_sent c + 3,
              sleeps := sleeps c @ [2, 2]\<rparr>, 3)"
proof -
  define c1 where "c1 = c\<lparr>net := step (net c), requests_sent := requests_sent c + 1\<rparr>"
  define c1' where "c1' = c1\<lparr>sleeps := sleeps c1 @ [wait_exponential 1]\<rparr>"
  define c2 where "c2 = c1'\<lparr>net := step (net c1'), requests_sent := requests_sent c1' + 1\<rparr>"
  define c2' where "c2' = c2\<lparr>sleeps := sleeps c2 @ [wait_exponential 2]\<rparr>"
  define c3 where "c3 = c2'\<lparr>net := step (net c2'), requests_sent := requests_sent c2' + 1\<rparr>"
  have w: "wait_exponential 1 = 2" "wait_exponential (Suc 0) = 2" "wait_exponential 2 = 2"
    by (simp_all add: wait_exponential_def)
  have r: "retry_if_exception_type (HTTPStatusError (status_code r))"
    by (simp add: retry_if_exception_type_def)
  have ready1: "client_open c1'" "get_headers c1' = Inr hs" "base_url c1' = base_url c"
    using assms(1,2) by (simp_all add: c1'_def c1_def)
  have ready2: "client_open c2'" "get_headers c2' = Inr hs" "base_url c2' = base_url c"
    using assms(1,2) by (simp_all add: c2'_def c2_def c1'_def c1_def)
  have a1: "get_attempt transport embedded_len endpoint params c = (Inl (HTTPStatusError (status_code r)), c1)"
    unfolding c1_def
    by (rule get_attempt_status_error [where transport = transport and embedded_len = embedded_len
          and endpoint = endpoint and params = params, OF assms(1,2) assms(3) assms(4)])
  have a2: "get_attempt transport embedded_len endpoint params c1' = (Inl (HTTPStatusError (status_code r)), c2)"
    unfolding c2_def
    by (rule get_attempt_status_error [where transport = transport and embedded_len = embedded_len
          and endpoint = endpoint and params = params, OF ready1(1,2) assms(3) [unfolded ready1(3) [symmetric]] assms(4)])
  have a3: "get_attempt transport embedded_len endpoint params c2' = (Inl (HTTPStatusError (status_code r)), c3)"
    unfolding c3_def
    by (rule get_attempt_status_error [where transport = transport and embedded_len = embedded_len
          and endpoint = endpoint and params = params, OF ready2(1,2) assms(3) [unfolded ready2(3) [symmetric]] assms(4)])
  have lt: "(1::nat) < 3" "(2::nat) < 3" by simp_all
  have n: "(1::nat) + 1 = 2" "(2::nat) + 1 = 3" by simp_all
  have "get_retrying transport embedded_len endpoint params 1 c = get_retrying transport embedded_len endpoint params 2 c1'"
    using get_retrying_again [OF a1 r lt(1)] unfolding n c1'_def .
  also have "\<dots> = get_retrying transport embedded_len endpoint params 3 c2'"
    using get_retrying_again [OF a2 r lt(2)] unfolding n c2'_def .
  also have "\<dots> = (Inl (HTTPStatusError (status_code r)), c3, 3)"
    by (rule get_retrying_gives_up [OF a3]) simp
  finally have "get transport embedded_len endpoint params c = (Inl (HTTPStatusError (status_code r)), c3, 3)"
    unfolding get_def .
  moreover have "c3 = c\<lparr>net := step (step (step (net c))), requests_sent := requests_sent c + 3,
              sleeps := sleeps c @ [2, 2]\<rparr>"
    by (simp add: c3_def c2'_def c2_def c1'_def c1_def w)
  ultimately show ?thesis by simp
qed

text \<open>
  Claim C1 says that a status such as 404 is raised to the caller after one attempt. The
  code retries it: against a transport that always answers 404, \<open>get\<close> calls the
  transport 3 times and sleeps twice before it raises the \<open>HTTPStatusError\<close>.
\<close>

theorem get_retries_not_found:
  "get (\<lambda>rq s. (Responded \<lparr>status_code = 404, json_body = None :: api_body option\<rparr>, s + 1))
       api_embedded_len ''/api/v4/users'' None
       (aenter (AmoCRMHTTPClient_init ''https://example.amocrm.ru/'' (Some ''token'') (Inr None) (0::nat)))
   = (Inl (HTTPStatusError 404),
      \<lparr>base_url = ''https://example.amocrm.ru'', client_open = True,
       AMO_LONG_LIVE_TOKEN = Some ''token'', token_manager = Inr None, net = 3,
       requests_sent = 3, sleeps = [2, 2]\<rparr>, 3)"
proof -
  let ?c = "aenter (AmoCRMHTTPClient_init ''https://example.amocrm.ru/'' (Some ''token'') (Inr None) (0::nat))"
  let ?hs = "[(''Authorization'', ''Bearer token''), (''Content-Type'', ''application/json'')]"
  have ready: "client_open ?c" "get_headers ?c = Inr ?hs"
    by (simp_all add: aenter_def AmoCRMHTTPClient_init_def get_headers_def)
  show ?thesis
    using get_persistent_status_error [where c = ?c and hs = ?hs and step = "\<lambda>s. s + 1"
        and r = "\<lparr>status_code = 404, json_body = None :: api_body option\<rparr>"
        and transport = "\<lambda>rq s. (Responded \<lparr>status_code = 404, json_body = None :: api_body option\<rparr>, s + 1)"
        and embedded_len = api_embedded_len and endpoint = "''/api/v4/users''" and params = None, OF ready]
    by (simp add: aenter_def AmoCRMHTTPClient_init_def rstrip_def)
qed

lemma get_not_open_single_attempt:
  "\<not> client_open c \<Longrightarrow>
   get transport embedded_len endpoint params c = (Inl (RuntimeError client_not_initialised), c, 1)"
  unfolding get_def
  by (rule get_retrying_gives_up [OF get_attempt_not_open]) (simp_all add: retry_if_exception_type_def)

section \<open>Properties of the paginated fetch\<close>









section \<open>Properties of the timestamp formats\<close>

lemma of_char_digit_char: "d < 10 \<Longrightarrow> (of_char (digit_char d) :: nat) = 48 + d"
  by (simp add: digit_char_def)

lemma is_digit_digit_char: "d < 10 \<Longrightarrow> is_digit (digit_char d)"
  by (simp add: is_digit_def of_char_digit_char)

lemma digit_val_digit_char: "d < 10 \<Longrightarrow> digit_val (digit_char d) = d"
  by (simp add: digit_val_def of_char_digit_char)

lemma in_range_digit_char:
  "d < 10 \<Longrightarrow> in_range (digit_char d) lo hi \<longleftrightarrow> (of_char lo :: nat) \<le> 48 + d \<and> 48 + d \<le> (of_char hi :: nat)"
  by (simp add: in_range_def of_char_digit_char)

lemma digit_char_eq: "d < 10 \<Longrightarrow> digit_char d = c \<longleftrightarrow> (of_char c :: nat) = 48 + d"
proof
  assume "d < 10" "digit_char d = c"
  then show "(of_char c :: nat) = 48 + d" using of_char_digit_char by blast
next
  assume d: "d < 10" and c: "(of_char c :: nat) = 48 + d"
  have "char_of (of_char c :: nat) = c" by simp
  then show "digit_char d = c" unfolding c digit_char_def .
qed

lemma take_digits_pad2:
  "n < 100 \<Longrightarrow> take_digits 2 (pad2 n @ rest) = Some (n, rest)"
proof -
  assume n: "n < 100"
  then have a: "n div 10 < 10" and b: "n mod 10 < 10" by simp_all
  have "n div 10 mod 10 = n div 10" using a by simp
  then show ?thesis
    using n by (simp add: pad2_def numeral_2_eq_2 is_digit_digit_char digit_val_digit_char a b)
qed

lemma four_digits:
  assumes "n < 10000"
  shows "n div 1000 mod 10 * 1000 + (n div 100 mod 10 * 100 + (n div 10 mod 10 * 10 + n mod 10)) = (n::nat)"
proof -
  define m where "m = n div 10"
  define k where "k = m div 10"
  define j where "j = k div 10"
  have k: "n div 100 = k" unfolding k_def m_def by (simp add: div_mult2_eq [symmetric])
  have j: "n div 1000 = j" unfolding j_def k_def m_def by (simp add: div_mult2_eq [symmetric])
  have "j < 10" using assms j by auto
  then have jm: "j mod 10 = j" by simp
  have e0: "n = 10 * m + n mod 10" unfolding m_def by simp
  have e1: "m = 10 * k + m mod 10" unfolding k_def by simp
  have e2: "k = 10 * j + k mod 10" unfolding j_def by simp
  define b0 where "b0 = n mod 10"
  define b1 where "b1 = m mod 10"
  define b2 where "b2 = k mod 10"
  have "j * 1000 + (b2 * 100 + (b1 * 10 + b0)) = n"
    using e0 e1 e2 unfolding b0_def [symmetric] b1_def [symmetric] b2_def [symmetric] by linarith
  then show ?thesis
    unfolding k j jm b0_def b1_def b2_def m_def [symmetric] .
qed

lemma take_digits_pad4:
  assumes n: "n < 10000"
  shows "take_digits 4 (pad4 n @ rest) = Some (n, rest)"
proof -
  define a where "a = n div 1000 mod 10"
  define b where "b = n div 100 mod 10"
  define c where "c = n div 10 mod 10"
  define d where "d = n mod 10"
  have lt: "a < 10" "b < 10" "c < 10" "d < 10"
    by (simp_all add: a_def b_def c_def d_def)
  have v: "a * 1000 + (b * 100 + (c * 10 + d)) = n"
    unfolding a_def b_def c_def d_def by (rule four_digits [OF n])
  have four: "(4::nat) = Suc (Suc (Suc (Suc 0)))" by simp
  have t: "take_digits (Suc (Suc (Suc (Suc 0))))
          (digit_char a # digit_char b # digit_char c # digit_char d # rest)
        = Some (a * 1000 + (b * 100 + (c * 10 + d)), rest)"
    by (simp add: is_digit_digit_char digit_val_digit_char lt)
  have "take_digits 4 (pad4 n @ rest) =
        take_digits (Suc (Suc (Suc (Suc 0))))
          (digit_char a # digit_char b # digit_char c # digit_char d # rest)"
    by (simp only: four pad4_def a_def b_def c_def d_def append_Cons append_Nil)
  also note t
  also note v
  finally show ?thesis .
qed

lemma expect_char_Cons [simp]: "expect_char ch (ch # rest) = Some rest"
  by (simp add: expect_char_def)

lemma datetime_fields: "\<lparr>year = year dt, month = month dt, day = day dt, hour = hour dt,
     minute = minute dt, second = second dt\<rparr> = (dt :: datetime)"
  by simp

lemma sqlite_parse_iso_timestamp:
  assumes "valid_datetime dt"
  shows "sqlite_parse (iso_timestamp dt) = Some dt"
proof -
  from assms have r: "year dt < 10000" "month dt < 100" "day dt < 100" "hour dt < 100"
      "minute dt < 100" "second dt < 100"
    by (auto simp: valid_datetime_def days_in_month_def split: if_splits)
  have s: "iso_timestamp dt =
     pad4 (year dt) @ CHR ''-'' # pad2 (month dt) @ CHR ''-'' # pad2 (day dt) @ CHR ''T'' #
     pad2 (hour dt) @ CHR '':'' # pad2 (minute dt) @ CHR '':'' # pad2 (second dt) @ ''Z''"
    by (simp add: iso_timestamp_def)
  show ?thesis
    unfolding s sqlite_parse_def
    by (simp add: take_digits_pad4 [OF r(1)] take_digits_pad2 [OF r(2)] take_digits_pad2 [OF r(3)]
          take_digits_pad2 [OF r(4)] take_digits_pad2 [OF r(5)] take_digits_pad2 [OF r(6)])
qed

lemma sqlite_date_iso_timestamp:
  "valid_datetime dt \<Longrightarrow> sqlite_date (iso_timestamp dt) = Some (iso_date dt)"
  by (simp add: sqlite_date_def sqlite_parse_iso_timestamp)

lemma digit_char_literals:
  "digit_char 0 = CHR ''0''" "digit_char 1 = CHR ''1''" "digit_char 2 = CHR ''2''"
  "digit_char 3 = CHR ''3''" "digit_char 4 = CHR ''4''" "digit_char 5 = CHR ''5''"
  "digit_char 6 = CHR ''6''" "digit_char 7 = CHR ''7''" "digit_char 8 = CHR ''8''"
  "digit_char 9 = CHR ''9''" "digit_char (Suc 0) = CHR ''1''"
  by (simp_all add: digit_char_eq)


text \<open>From the year 1000 on, \<open>strftime\<close> writes the canonical forms.\<close>

lemma decimal_four_digits:
  assumes "1000 \<le> n" and "n \<le> 9999"
  shows "decimal n = pad4 n"
proof -
  have d100: "n div 10 div 10 = n div 100" by (simp add: div_mult2_eq [symmetric])
  have d1000: "n div 100 div 10 = n div 1000" by (simp add: div_mult2_eq [symmetric])
  have big: "\<not> n < 10" "\<not> n div 10 < 10" "\<not> n div 100 < 10" "n div 1000 < 10"
    using assms by simp_all
  have top: "n div 1000 mod 10 = n div 1000" using big(4) by simp
  have "decimal n = decimal (n div 10) @ [digit_char (n mod 10)]"
    using big(1) by (subst decimal.simps) simp
  also have "decimal (n div 10) = decimal (n div 100) @ [digit_char (n div 10 mod 10)]"
    using big(2) by (subst decimal.simps) (simp add: d100)
  also have "decimal (n div 100) = decimal (n div 1000) @ [digit_char (n div 100 mod 10)]"
    using big(3) by (subst decimal.simps) (simp add: d1000)
  also have "decimal (n div 1000) = [digit_char (n div 1000)]"
    using big(4) by (subst decimal.simps) simp
  finally show ?thesis
    by (simp add: pad4_def top)
qed

lemma strftime_iso_canonical:
  "valid_datetime dt \<Longrightarrow> 1000 \<le> year dt \<Longrightarrow> strftime_iso dt = iso_timestamp dt"
  by (simp add: strftime_iso_def iso_timestamp_def decimal_four_digits valid_datetime_def)

lemma strftime_date_canonical:
  "valid_datetime dt \<Longrightarrow> 1000 \<le> year dt \<Longrightarrow> strftime_date dt = iso_date dt"
  by (simp add: strftime_date_def iso_date_def decimal_four_digits valid_datetime_def)


section \<open>Properties of the latency store\<close>

lemma rows_for_date_single:
  "rows_for_date [(ts, ms)] d = (if sqlite_date ts = Some d then [(ts, ms)] else [])"
  by (simp add: rows_for_date_def)

lemma delete_nothing:
  "rows_for_date db d = [] \<Longrightarrow> delete_latency_for_date db d = (0, db)"
proof -
  assume e: "rows_for_date db d = []"
  then have "\<forall>row \<in> set db. \<not> (case row of (timestamp, latency_ms) \<Rightarrow> sqlite_date timestamp = Some d)"
    unfolding rows_for_date_def by (simp add: filter_empty_conv)
  then have "filter (\<lambda>(timestamp, latency_ms). sqlite_date timestamp \<noteq> Some d) db = db"
    by (auto simp: filter_id_conv)
  with e show ?thesis
    by (simp add: delete_latency_for_date_def)
qed

text \<open>
  Claim C7, amended. For every timestamp \<open>T\<close> from the year 1000 on: starting from the
  empty store, saving 150 ms at \<open>T\<close> inserts the one row
  \<open>(T formatted as YYYY-MM-DDTHH:MM:SSZ, 150)\<close>; the maximum for the date of \<open>T\<close> is
  then that row; deleting that date removes it (the count is 1), after which the maximum
  for the date is none; and deleting a date that has no rows returns 0 and leaves the
  store as it is.
\<close>

theorem latency_round_trip:
  assumes "valid_datetime T" and "1000 \<le> year T"
  shows "save_latency [] 150 (Some T) now = Inr [(iso_timestamp T, 150)]
       \<and> get_max_latency_for_date [(iso_timestamp T, 150)] (strftime_date T) = Some (iso_timestamp T, 150)
       \<and> delete_latency_for_date [(iso_timestamp T, 150)] (strftime_date T) = (1, [])
       \<and> get_max_latency_for_date [] (strftime_date T) = None
       \<and> (rows_for_date db d = [] \<longrightarrow> delete_latency_for_date db d = (0, db))"
proof -
  have written: "strftime_iso T = iso_timestamp T"
    using assms by (rule strftime_iso_canonical)
  have asked: "strftime_date T = iso_date T"
    using assms by (rule strftime_date_canonical)
  have d: "sqlite_date (iso_timestamp T) = Some (strftime_date T)"
    unfolding asked using assms(1) by (rule sqlite_date_iso_timestamp)
  have 1: "save_latency [] 150 (Some T) now = Inr [(iso_timestamp T, 150)]"
    by (simp add: save_latency_def written)
  have 2: "get_max_latency_for_date [(iso_timestamp T, 150)] (strftime_date T) = Some (iso_timestamp T, 150)"
    by (simp add: get_max_latency_for_date_def rows_for_date_single d)
  have 3: "delete_latency_for_date [(iso_timestamp T, 150)] (strftime_date T) = (1, [])"
    by (simp add: delete_latency_for_date_def rows_for_date_single d)
  have 4: "get_max_latency_for_date [] (strftime_date T) = None"
    by (simp add: get_max_latency_for_date_def rows_for_date_def)
  from 1 2 3 4 delete_nothing show ?thesis by blast
qed

theorem latency_round_trip_witness:
  "save_latency [] 150
     (Some \<lparr>year = 2025, month = 1, day = 15, hour = 11, minute = 0, second = 0\<rparr>)
     \<lparr>year = 2025, month = 1, day = 16, hour = 3, minute = 0, second = 0\<rparr>
     = Inr [(''2025-01-15T11:00:00Z'', 150)]
   \<and> get_max_latency_for_date [(''2025-01-15T11:00:00Z'', 150)] ''2025-01-15''
     = Some (''2025-01-15T11:00:00Z'', 150)
   \<and> delete_latency_for_date [(''2025-01-15T11:00:00Z'', 150)] ''2025-01-15'' = (1, [])
   \<and> get_max_latency_for_date [] ''2025-01-15'' = None
   \<and> delete_latency_for_date [] ''2025-01-15'' = (0, [])"
proof -
  let ?T = "\<lparr>year = 2025, month = 1, day = 15, hour = 11, minute = 0, second = 0\<rparr>"
  have v: "valid_datetime ?T"
    by (simp add: valid_datetime_def days_in_month_def)
  have y: "1000 \<le> year ?T" by simp
  have f: "iso_timestamp ?T = ''2025-01-15T11:00:00Z''"
    by (simp add: iso_timestamp_def pad2_def pad4_def digit_char_literals)
  have g: "strftime_date ?T = ''2025-01-15''"
    unfolding strftime_date_canonical [OF v y]
    by (simp add: iso_date_def pad2_def pad4_def digit_char_literals)
  have e: "rows_for_date [] ''2025-01-15'' = []" by (simp add: rows_for_date_def)
  show ?thesis
    using latency_round_trip [OF v y, of "\<lparr>year = 2025, month = 1, day = 16, hour = 3, minute = 0, second = 0\<rparr>"
        "[]" "''2025-01-15''"] e
    unfolding f g by blast
qed

text \<open>
  For a timestamp of the year 999 the row is written with a three-digit year, SQLite's
  \<open>date\<close> of it is NULL, and the maximum for the date of the timestamp is none, whether
  the date is asked for as the program prints it or zero-padded.
\<close>

theorem latency_round_trip_year_999_counterexample:
  "save_latency [] 150
     (Some \<lparr>year = 999, month = 1, day = 15, hour = 11, minute = 0, second = 0\<rparr>)
     \<lparr>year = 999, month = 1, day = 16, hour = 3, minute = 0, second = 0\<rparr>
     = Inr [(''999-01-15T11:00:00Z'', 150)]
   \<and> strftime_date \<lparr>year = 999, month = 1, day = 15, hour = 11, minute = 0, second = 0\<rparr>
     = ''999-01-15''
   \<and> get_max_latency_for_date [(''999-01-15T11:00:00Z'', 150)] ''999-01-15'' = None
   \<and> get_max_latency_for_date [(''999-01-15T11:00:00Z'', 150)] ''0999-01-15'' = None"
proof -
  have dec: "decimal 999 = ''999''"
    by (simp add: decimal.simps [of 999] decimal.simps [of 99] decimal.simps [of 9]
          digit_char_literals)
  have null: "sqlite_date ''999-01-15T11:00:00Z'' = None"
    by (simp add: sqlite_date_def sqlite_parse_def eval_nat_numeral is_digit_def)
  have 1: "save_latency [] 150
     (Some \<lparr>year = 999, month = 1, day = 15, hour = 11, minute = 0, second = 0\<rparr>)
     \<lparr>year = 999, month = 1, day = 16, hour = 3, minute = 0, second = 0\<rparr>
     = Inr [(''999-01-15T11:00:00Z'', 150)]"
    by (simp add: save_latency_def strftime_iso_def dec pad2_def digit_char_literals)
  have 2: "strftime_date \<lparr>year = 999, month = 1, day = 15, hour = 11, minute = 0, second = 0\<rparr>
     = ''999-01-15''"
    by (simp add: strftime_date_def dec pad2_def digit_char_literals)
  have 3: "get_max_latency_for_date [(''999-01-15T11:00:00Z'', 150)] d = None" for d
    by (simp add: get_max_latency_for_date_def rows_for_date_single null)
  from 1 2 3 show ?thesis by blast
qed

lemma rows_for_date_after_delete:
  "d' \<noteq> d \<Longrightarrow>
   rows_for_date (filter (\<lambda>(timestamp, latency_ms). sqlite_date timestamp \<noteq> Some d) db) d' =
   rows_for_date db d'"
  unfolding rows_for_date_def filter_filter
  by (rule filter_cong) auto

text \<open>
  Claim C8. For every store and every date \<open>d\<close>, \<open>delete_latency_for_date\<close> returns
  the number of rows whose timestamp has the date \<open>d\<close> and leaves exactly the other
  rows, in their order; no row of \<open>d\<close> remains, and for every other date the rows and
  the result of \<open>get_max_latency_for_date\<close> are the same before and after.
\<close>

theorem delete_latency_frame:
  assumes "delete_latency_for_date db d = (n, db')"
  shows "n = int (length (filter (\<lambda>(timestamp, latency_ms). sqlite_date timestamp = Some d) db))
       \<and> db' = filter (\<lambda>(timestamp, latency_ms). sqlite_date timestamp \<noteq> Some d) db
       \<and> rows_for_date db' d = []
       \<and> (d' \<noteq> d \<longrightarrow>
            rows_for_date db' d' = rows_for_date db d' \<and>
            get_max_latency_for_date db' d' = get_max_latency_for_date db d')"
proof -
  from assms have n: "n = int (length (filter (\<lambda>(timestamp, latency_ms). sqlite_date timestamp = Some d) db))"
    and db': "db' = filter (\<lambda>(timestamp, latency_ms). sqlite_date timestamp \<noteq> Some d) db"
    by (simp_all add: delete_latency_for_date_def rows_for_date_def Let_def)
  have gone: "rows_for_date db' d = []"
    unfolding db' rows_for_date_def filter_filter by (auto simp: filter_empty_conv)
  have frame: "rows_for_date db' d' = rows_for_date db d'" if "d' \<noteq> d"
    unfolding db' using that by (rule rows_for_date_after_delete)
  then have "get_max_latency_for_date db' d' = get_max_latency_for_date db d'" if "d' \<noteq> d"
    using that by (simp add: get_max_latency_for_date_def)
  with n db' gone frame show ?thesis by blast
qed

theorem delete_latency_frame_witness:
  "delete_latency_for_date
     [(''2025-01-14T10:00:00Z'', 100), (''2025-01-15T11:00:00Z'', 150),
      (''2025-01-15T12:00:00Z'', 200), (''2025-01-16T13:00:00Z'', 300)] ''2025-01-15''
     = (2, [(''2025-01-14T10:00:00Z'', 100), (''2025-01-16T13:00:00Z'', 300)])
   \<and> get_max_latency_for_date [(''2025-01-14T10:00:00Z'', 100), (''2025-01-16T13:00:00Z'', 300)]
       ''2025-01-14''
     = get_max_latency_for_date
        [(''2025-01-14T10:00:00Z'', 100), (''2025-01-15T11:00:00Z'', 150),
         (''2025-01-15T12:00:00Z'', 200), (''2025-01-16T13:00:00Z'', 300)] ''2025-01-14''
   \<and> get_max_latency_for_date [(''2025-01-14T10:00:00Z'', 100), (''2025-01-16T13:00:00Z'', 300)]
       ''2025-01-14'' = Some (''2025-01-14T10:00:00Z'', 100)
   \<and> get_max_latency_for_date [(''2025-01-14T10:00:00Z'', 100), (''2025-01-16T13:00:00Z'', 300)]
       ''2025-01-16'' = Some (''2025-01-16T13:00:00Z'', 300)"
proof -
  let ?db = "[(''2025-01-14T10:00:00Z'', 100), (''2025-01-15T11:00:00Z'', 150),
      (''2025-01-15T12:00:00Z'', 200), (''2025-01-16T13:00:00Z'', 300::int)]"
  let ?db' = "[(''2025-01-14T10:00:00Z'', 100), (''2025-01-16T13:00:00Z'', 300::int)]"
  have d14: "sqlite_date ''2025-01-14T10:00:00Z'' = Some ''2025-01-14''"
    using sqlite_date_iso_timestamp
      [of "\<lparr>year = 2025, month = 1, day = 14, hour = 10, minute = 0, second = 0\<rparr>"]
    by (simp add: valid_datetime_def days_in_month_def iso_timestamp_def iso_date_def
          pad2_def pad4_def digit_char_literals)
  have d15a: "sqlite_date ''2025-01-15T11:00:00Z'' = Some ''2025-01-15''"
    using sqlite_date_iso_timestamp
      [of "\<lparr>year = 2025, month = 1, day = 15, hour = 11, minute = 0, second = 0\<rparr>"]
    by (simp add: valid_datetime_def days_in_month_def iso_timestamp_def iso_date_def
          pad2_def pad4_def digit_char_literals)
  have d15b: "sqlite_date ''2025-01-15T12:00:00Z'' = Some ''2025-01-15''"
    using sqlite_date_iso_timestamp
      [of "\<lparr>year = 2025, month = 1, day = 15, hour = 12, minute = 0, second = 0\<rparr>"]
    by (simp add: valid_datetime_def days_in_month_def iso_timestamp_def iso_date_def
          pad2_def pad4_def digit_char_literals)
  have d16: "sqlite_date ''2025-01-16T13:00:00Z'' = Some ''2025-01-16''"
    using sqlite_date_iso_timestamp
      [of "\<lparr>year = 2025, month = 1, day = 16, hour = 13, minute = 0, second = 0\<rparr>"]
    by (simp add: valid_datetime_def days_in_month_def iso_timestamp_def iso_date_def
          pad2_def pad4_def digit_char_literals)
  have del: "delete_latency_for_date ?db ''2025-01-15'' = (2, ?db')"
    by (simp add: delete_latency_for_date_def rows_for_date_def d14 d15a d15b d16)
  have ne: "''2025-01-14'' \<noteq> ''2025-01-15''" by simp
  have m14: "get_max_latency_for_date ?db' ''2025-01-14'' = Some (''2025-01-14T10:00:00Z'', 100)"
    by (simp add: get_max_latency_for_date_def rows_for_date_def d14 d16)
  have m16: "get_max_latency_for_date ?db' ''2025-01-16'' = Some (''2025-01-16T13:00:00Z'', 300)"
    by (simp add: get_max_latency_for_date_def rows_for_date_def d14 d16)
  have "get_max_latency_for_date ?db' ''2025-01-14'' = get_max_latency_for_date ?db ''2025-01-14''"
    using delete_latency_frame [OF del, of "''2025-01-14''"] ne by blast
  with del m14 m16 show ?thesis by blast
qed

section \<open>Properties of the daily report\<close>

lemma pad2_digits:
  assumes "n < 100"
  obtains a b where "a < 10" "b < 10" "n = a * 10 + b" "pad2 n = [digit_char a, digit_char b]"
proof
  show "n div 10 < 10" using assms by simp
  show "n mod 10 < 10" by simp
  show "n = n div 10 * 10 + n mod 10" by simp
  have "n div 10 mod 10 = n div 10" using assms by simp
  then show "pad2 n = [digit_char (n div 10), digit_char (n mod 10)]"
    by (simp add: pad2_def)
qed

lemmas digit_simps = digit_char_eq in_range_digit_char is_digit_digit_char digit_val_digit_char
  two_digits_def

lemma re_m_pad2:
  assumes "1 \<le> m" and "m \<le> 12"
  shows "re_m (pad2 m @ rest) = Some (m, rest)"
proof -
  from assms have "m < 100" by simp
  then obtain a b where d: "a < 10" "b < 10" "m = a * 10 + b" "pad2 m = [digit_char a, digit_char b]"
    by (rule pad2_digits)
  from assms d(1,2,3) have "(a = 0 \<and> 1 \<le> b) \<or> (a = 1 \<and> b \<le> 2)" by auto
  then show ?thesis
    unfolding d(4) using d(1,2) by (auto simp: digit_simps d(3))
qed

lemma re_d_pad2:
  assumes "1 \<le> n" and "n \<le> 31"
  shows "re_d (pad2 n @ rest) = Some (n, rest)"
proof -
  from assms have "n < 100" by simp
  then obtain a b where d: "a < 10" "b < 10" "n = a * 10 + b" "pad2 n = [digit_char a, digit_char b]"
    by (rule pad2_digits)
  from assms d(1,2,3) have "(a = 0 \<and> 1 \<le> b) \<or> a = 1 \<or> a = 2 \<or> (a = 3 \<and> b \<le> 1)" by auto
  then show ?thesis
    unfolding d(4) using d(1,2) by (auto simp: digit_simps d(3))
qed

lemma re_H_pad2:
  assumes "n \<le> 23"
  shows "re_H (pad2 n @ rest) = Some (n, rest)"
proof -
  from assms have "n < 100" by simp
  then obtain a b where d: "a < 10" "b < 10" "n = a * 10 + b" "pad2 n = [digit_char a, digit_char b]"
    by (rule pad2_digits)
  from assms d(1,2,3) have "a = 0 \<or> a = 1 \<or> (a = 2 \<and> b \<le> 3)" by auto
  then show ?thesis
    unfolding d(4) using d(1,2) by (auto simp: digit_simps d(3))
qed

lemma re_M_pad2:
  assumes "n \<le> 59"
  shows "re_M (pad2 n @ rest) = Some (n, rest)"
proof -
  from assms have "n < 100" by simp
  then obtain a b where d: "a < 10" "b < 10" "n = a * 10 + b" "pad2 n = [digit_char a, digit_char b]"
    by (rule pad2_digits)
  from assms d(1,2,3) have "a \<le> 5" by auto
  then show ?thesis
    unfolding d(4) using d(1,2) by (auto simp: digit_simps d(3))
qed

lemma re_S_pad2:
  assumes "n \<le> 59"
  shows "re_S (pad2 n @ rest) = Some (n, rest)"
proof -
  from assms have "n < 100" by simp
  then obtain a b where d: "a < 10" "b < 10" "n = a * 10 + b" "pad2 n = [digit_char a, digit_char b]"
    by (rule pad2_digits)
  from assms d(1,2,3) have "a \<le> 5" by auto
  then show ?thesis
    unfolding d(4) using d(1,2) by (auto simp: digit_simps d(3))
qed

lemma expect_nocase_upper [simp]: "expect_nocase upper lower (upper # rest) = Some rest"
  by (simp add: expect_nocase_def)

lemma strptime_match_iso_timestamp:
  assumes "valid_datetime dt"
  shows "strptime_match (iso_timestamp dt) = Some dt"
proof -
  from assms have r: "year dt < 10000" "1 \<le> month dt" "month dt \<le> 12" "1 \<le> day dt" "day dt \<le> 31"
      "hour dt \<le> 23" "minute dt \<le> 59" "second dt \<le> 59"
    by (auto simp: valid_datetime_def days_in_month_def split: if_splits)
  have s: "iso_timestamp dt =
     pad4 (year dt) @ CHR ''-'' # pad2 (month dt) @ CHR ''-'' # pad2 (day dt) @ CHR ''T'' #
     pad2 (hour dt) @ CHR '':'' # pad2 (minute dt) @ CHR '':'' # pad2 (second dt) @ ''Z''"
    by (simp add: iso_timestamp_def)
  show ?thesis
    unfolding s strptime_match_def
    by (simp add: take_digits_pad4 [OF r(1)] re_m_pad2 [OF r(2,3)] re_d_pad2 [OF r(4,5)]
          re_H_pad2 [OF r(6)] re_M_pad2 [OF r(7)] re_S_pad2 [OF r(8)])
qed

lemma strptime_iso_timestamp:
  "valid_datetime dt \<Longrightarrow> strptime (iso_timestamp dt) = Inr dt"
  by (simp add: strptime_def strptime_match_iso_timestamp)

lemma hh_mm_portion:
  "take 5 (drop 11 (iso_timestamp dt)) = pad2 (hour dt) @ '':'' @ pad2 (minute dt)"
  by (simp add: iso_timestamp_def pad2_def pad4_def)

text \<open>
  Claim C10. \<open>format_time\<close> is total: it returns a string for every input, the
  \<open>ValueError\<close> of \<open>strptime\<close> ends in the \<open>except\<close> clause. For a timestamp
  written as \<open>YYYY-MM-DDTHH:MM:SSZ\<close> it returns the \<open>HH:MM\<close> part of the string; for
  every string that parses, the hour and minute parsed, zero-padded; and for every
  string that does not parse, the string itself.
\<close>

theorem format_time_never_fails:
  "(valid_datetime dt \<longrightarrow>
      format_time (iso_timestamp dt) = pad2 (hour dt) @ '':'' @ pad2 (minute dt) \<and>
      format_time (iso_timestamp dt) = take 5 (drop 11 (iso_timestamp dt)))
   \<and> (strptime s = Inr parsed \<longrightarrow> format_time s = pad2 (hour parsed) @ '':'' @ pad2 (minute parsed))
   \<and> (strptime s = Inl e \<longrightarrow> format_time s = s)"
proof -
  have written: "format_time (iso_timestamp dt) = pad2 (hour dt) @ '':'' @ pad2 (minute dt)"
    if "valid_datetime dt"
    using strptime_iso_timestamp [OF that] by (simp add: format_time_def)
  then have portion: "format_time (iso_timestamp dt) = take 5 (drop 11 (iso_timestamp dt))"
    if "valid_datetime dt"
    using that by (simp only: hh_mm_portion)
  have parses: "format_time s = pad2 (hour parsed) @ '':'' @ pad2 (minute parsed)"
    if "strptime s = Inr parsed"
    using that by (simp add: format_time_def)
  have fails: "format_time s = s" if "strptime s = Inl e"
    using that by (simp add: format_time_def)
  from written portion parses fails show ?thesis by blast
qed

theorem format_time_never_fails_witness:
  "format_time ''2025-01-15T18:23:00Z'' = ''18:23''
   \<and> format_time ''2025-1-5t8:3:0z'' = ''08:03''
   \<and> format_time ''2025-02-30T18:23:00Z'' = ''2025-02-30T18:23:00Z''
   \<and> format_time ''18:23'' = ''18:23''"
proof -
  let ?dt = "\<lparr>year = 2025, month = 1, day = 15, hour = 18, minute = 23, second = 0\<rparr>"
  have v: "valid_datetime ?dt" by code_simp
  have f: "iso_timestamp ?dt = ''2025-01-15T18:23:00Z''" by code_simp
  have p: "pad2 (hour ?dt) @ '':'' @ pad2 (minute ?dt) = ''18:23''" by code_simp
  have a: "format_time ''2025-01-15T18:23:00Z'' = ''18:23''"
    using format_time_never_fails [of ?dt "''x''" ?dt ValueError] v unfolding f p by blast
  have q: "strptime ''2025-1-5t8:3:0z'' =
      Inr \<lparr>year = 2025, month = 1, day = 5, hour = 8, minute = 3, second = 0\<rparr>"
    by code_simp
  have p2: "pad2 (hour \<lparr>year = 2025, month = 1, day = 5, hour = 8, minute = 3, second = 0\<rparr>) @ '':'' @
     pad2 (minute \<lparr>year = 2025, month = 1, day = 5, hour = 8, minute = 3, second = 0\<rparr>) = ''08:03''"
    by code_simp
  have b: "format_time ''2025-1-5t8:3:0z'' = ''08:03''"
    using format_time_never_fails [of ?dt "''2025-1-5t8:3:0z''"
        "\<lparr>year = 2025, month = 1, day = 5, hour = 8, minute = 3, second = 0\<rparr>" ValueError] q
    unfolding p2 by blast
  have q3: "strptime ''2025-02-30T18:23:00Z'' = Inl ValueError"
    by code_simp
  have c: "format_time ''2025-02-30T18:23:00Z'' = ''2025-02-30T18:23:00Z''"
    using format_time_never_fails [of ?dt "''2025-02-30T18:23:00Z''" ?dt
        ValueError] q3 by blast
  have q4: "strptime ''18:23'' = Inl ValueError"
    by code_simp
  have d: "format_time ''18:23'' = ''18:23''"
    using format_time_never_fails [of ?dt "''18:23''" ?dt
        ValueError] q4 by blast
  from a b c d show ?thesis by blast
qed

lemma report_rows_loop_later:
  "0 < i \<Longrightarrow>
   report_rows_loop date_str max_latency i top_events rows =
     rows @ map (\<lambda>(event_type, count).
                  [CellStr date_str, CellStr (get_event_name event_type), CellInt count,
                   CellStr [], CellStr []]) top_events"
  by (induction top_events arbitrary: i rows) (auto simp: Let_def)

lemma report_rows_loop_first:
  "report_rows_loop date_str max_latency 0 ((event_type, count) # top_events) [] =
     [CellStr date_str, CellStr (get_event_name event_type), CellInt count,
      (case max_latency of None \<Rightarrow> CellStr [] | Some (peak_time, latency_ms) \<Rightarrow> CellInt latency_ms),
      (case max_latency of None \<Rightarrow> CellStr []
       | Some (peak_time, latency_ms) \<Rightarrow> CellStr (format_time peak_time))]
     # map (\<lambda>(event_type, count).
                  [CellStr date_str, CellStr (get_event_name event_type), CellInt count,
                   CellStr [], CellStr []]) top_events"
  by (cases max_latency) (auto simp: Let_def report_rows_loop_later)

text \<open>
  Claim C9, amended. For every report date, every list of top events that is not empty
  and every optional peak, \<open>prepare_report_data\<close> returns one row per entry, in order:
  the first row carries the peak latency and the peak time (blank when there is no peak)
  and every later row has both fields blank. For the empty list it returns one
  placeholder row whose label is the code's Russian literal \<open>no_events_label\<close> and
  whose count is 0, with blank peak fields when there is no peak.
\<close>

theorem prepare_report_data_rows:
  "prepare_report_data report_date ((event_type, count) # more_events) max_latency =
     [CellStr (format_date report_date), CellStr (get_event_name event_type), CellInt count,
      (case max_latency of None \<Rightarrow> CellStr [] | Some (peak_time, latency_ms) \<Rightarrow> CellInt latency_ms),
      (case max_latency of None \<Rightarrow> CellStr []
       | Some (peak_time, latency_ms) \<Rightarrow> CellStr (format_time peak_time))]
     # map (\<lambda>(event_type, count).
              [CellStr (format_date report_date), CellStr (get_event_name event_type), CellInt count,
               CellStr [], CellStr []]) more_events
   \<and> length (prepare_report_data report_date ((event_type, count) # more_events) max_latency)
       = length ((event_type, count) # more_events)
   \<and> prepare_report_data report_date [] None =
       [[CellStr (format_date report_date), CellStr no_events_label, CellInt 0, CellStr [], CellStr []]]
   \<and> prepare_report_data report_date [] (Some (peak_time, latency_ms)) =
       [[CellStr (format_date report_date), CellStr no_events_label, CellInt 0,
         CellInt latency_ms, CellStr (format_time peak_time)]]"
proof -
  let ?top_events = "(event_type, count) # more_events"
  have loop: "prepare_report_data report_date ?top_events max_latency =
      report_rows_loop (format_date report_date) max_latency 0 ?top_events []"
    by (simp add: prepare_report_data_def Let_def del: report_rows_loop.simps)
  have rows: "prepare_report_data report_date ?top_events max_latency =
     [CellStr (format_date report_date), CellStr (get_event_name event_type), CellInt count,
      (case max_latency of None \<Rightarrow> CellStr [] | Some (peak_time, latency_ms) \<Rightarrow> CellInt latency_ms),
      (case max_latency of None \<Rightarrow> CellStr []
       | Some (peak_time, latency_ms) \<Rightarrow> CellStr (format_time peak_time))]
     # map (\<lambda>(event_type, count).
              [CellStr (format_date report_date), CellStr (get_event_name event_type), CellInt count,
               CellStr [], CellStr []]) more_events"
    unfolding loop by (rule report_rows_loop_first)
  have len: "length (prepare_report_data report_date ?top_events max_latency) = length ?top_events"
    unfolding rows by simp
  have none: "prepare_report_data report_date [] None =
       [[CellStr (format_date report_date), CellStr no_events_label, CellInt 0, CellStr [], CellStr []]]"
    by (simp add: prepare_report_data_def)
  have peak: "prepare_report_data report_date [] (Some (peak_time, latency_ms)) =
       [[CellStr (format_date report_date), CellStr no_events_label, CellInt 0,
         CellInt latency_ms, CellStr (format_time peak_time)]]"
    by (simp add: prepare_report_data_def)
  from rows len none peak show ?thesis by blast
qed

lemma get_event_name_unlisted: "get_event_name ''A'' = ''A''" "get_event_name ''B'' = ''B''"
  by (simp_all add: get_event_name_def EVENT_TYPE_NAMES_def)

theorem prepare_report_data_rows_witness:
  "prepare_report_data \<lparr>year = 2025, month = 11, day = 11, hour = 0, minute = 0, second = 0\<rparr>
     [(''A'', 116), (''B'', 114)] (Some (''2025-11-11T18:23:00Z'', 72))
   = [[CellStr ''11.11.2025'', CellStr ''A'', CellInt 116, CellInt 72, CellStr ''18:23''],
      [CellStr ''11.11.2025'', CellStr ''B'', CellInt 114, CellStr '''', CellStr '''']]"
proof -
  let ?d = "\<lparr>year = 2025, month = 11, day = 11, hour = 0, minute = 0, second = 0\<rparr>"
  have fd: "format_date ?d = ''11.11.2025''"
    by (simp add: format_date_def decimal_four_digits pad2_def pad4_def digit_char_literals)
  have ft: "format_time ''2025-11-11T18:23:00Z'' = ''18:23''" by code_simp
  show ?thesis
    using prepare_report_data_rows [of ?d "''A''" 116 "[(''B'', 114)]"
        "Some (''2025-11-11T18:23:00Z'', 72)" "''x''" 0]
    by (simp add: fd ft get_event_name_unlisted)
qed

text \<open>
  The placeholder row does not carry the English label "No events".
\<close>

theorem prepare_report_data_label_counterexample:
  "prepare_report_data \<lparr>year = 2025, month = 11, day = 11, hour = 0, minute = 0, second = 0\<rparr> [] None
   \<noteq> [[CellStr ''11.11.2025'', CellStr ''No events'', CellInt 0, CellStr '''', CellStr '''']]"
  by (simp add: prepare_report_data_def no_events_label_def)

end
